theory Spec2Isabelle
  imports Main
begin

section \<open>JavaScript values\<close>

text \<open>
  The handlers of \<^verbatim>\<open>src/server/server.js\<close> work on parsed JSON: request bodies, the
  gateway's response data, query parameters. A value is \<^verbatim>\<open>undefined\<close>, \<^verbatim>\<open>null\<close>, a
  boolean, a number, a string, an array or a plain object. Numbers are the integers
  (result codes, amounts in shillings); an object is the finite map of its own properties.
\<close>

datatype json =
    JUndefined
  | JNull
  | JBool bool
  | JNum int
  | JStr string
  | JArr "json list"
  | JObj "string \<Rightarrow> json option"

text \<open>Truthiness, as \<^verbatim>\<open>if(x)\<close>, \<^verbatim>\<open>!x\<close>, \<^verbatim>\<open>a || b\<close> and \<^verbatim>\<open>a && b\<close> read it.\<close>

fun truthy :: "json \<Rightarrow> bool" where
  "truthy JUndefined = False"
| "truthy JNull = False"
| "truthy (JBool b) = b"
| "truthy (JNum n) = (n \<noteq> 0)"
| "truthy (JStr s) = (s \<noteq> [])"
| "truthy (JArr xs) = True"
| "truthy (JObj m) = True"

definition js_or :: "json \<Rightarrow> json \<Rightarrow> json" where
  "js_or a b = (if truthy a then a else b)"

definition js_and :: "json \<Rightarrow> json \<Rightarrow> json" where
  "js_and a b = (if truthy a then b else a)"

fun is_undefined :: "json \<Rightarrow> bool" where
  "is_undefined JUndefined = True"
| "is_undefined v = False"

fun is_nullish :: "json \<Rightarrow> bool" where
  "is_nullish JUndefined = True"
| "is_nullish JNull = True"
| "is_nullish v = False"

fun is_array :: "json \<Rightarrow> bool" where
  "is_array (JArr xs) = True"
| "is_array v = False"

fun elements :: "json \<Rightarrow> json list" where
  "elements (JArr xs) = xs"
| "elements v = []"

text \<open>\<^verbatim>\<open>x === n\<close> for a number literal \<^verbatim>\<open>n\<close>: no coercion, so only the number itself.\<close>

fun strict_eq_num :: "json \<Rightarrow> int \<Rightarrow> bool" where
  "strict_eq_num (JNum m) n = (m = n)"
| "strict_eq_num v n = False"

text \<open>
  Property read \<^verbatim>\<open>v.k\<close> for the property names the handlers use (none of them is a
  member of a prototype): an object yields its own property or \<^verbatim>\<open>undefined\<close>, every
  other non-nullish value yields \<^verbatim>\<open>undefined\<close>. On \<^verbatim>\<open>null\<close> and \<^verbatim>\<open>undefined\<close> the read
  throws a TypeError; the handlers below test \<open>is_nullish\<close> at each read the source
  leaves unguarded.
\<close>

fun property :: "json \<Rightarrow> string \<Rightarrow> json" where
  "property (JObj m) k = (case m k of None \<Rightarrow> JUndefined | Some v \<Rightarrow> v)"
| "property v k = JUndefined"

subsection \<open>Decimal digits\<close>

text \<open>
  The decimal digits of an integer, which is how the engine prints an integer below
  \<open>10\<^sup>2\<^sup>1\<close>. The example requests further down use it as their \<open>fmt\<close>.
\<close>

text \<open>The decimal digit for \<open>n < 10\<close>; \<open>show_nat\<close> calls it with no other number.\<close>

definition digit_char :: "nat \<Rightarrow> char" where
  "digit_char n = ''0123456789'' ! n"

fun show_nat :: "nat \<Rightarrow> string" where
  "show_nat n = (if n < 10 then [digit_char n] else show_nat (n div 10) @ [digit_char (n mod 10)])"

declare show_nat.simps [simp del]

definition show_int :: "int \<Rightarrow> string" where
  "show_int i = (if i < 0 then CHR ''-'' # show_nat (nat (- i)) else show_nat (nat i))"

fun join :: "string \<Rightarrow> string list \<Rightarrow> string" where
  "join sep [] = []"
| "join sep [s] = s"
| "join sep (s # t # ss) = s @ sep @ join sep (t # ss)"

subsection \<open>Thrown errors\<close>

text \<open>
  What a \<^verbatim>\<open>catch\<close> clause can receive: a TypeError of the engine, the \<^verbatim>\<open>Error\<close> that
  \<^verbatim>\<open>getAccessToken\<close> throws itself, or a rejection of axios, which carries the gateway's
  response data when the gateway answered and a message otherwise.
\<close>

datatype js_error =
    TypeError string
  | Error string
  | AxiosError "json option" string

subsection \<open>\<^verbatim>\<open>String(v)\<close>\<close>

text \<open>First error wins, as the conversions run from left to right.\<close>

fun sequence :: "(js_error + 'a) list \<Rightarrow> js_error + 'a list" where
  "sequence [] = Inr []"
| "sequence (Inl e # rest) = Inl e"
| "sequence (Inr x # rest) = (case sequence rest of Inl e \<Rightarrow> Inl e | Inr xs \<Rightarrow> Inr (x # xs))"

text \<open>
  \<^verbatim>\<open>String(v)\<close>, which is also what a template literal does with \<^verbatim>\<open>${v}\<close> and how a value
  becomes a property key in \<^verbatim>\<open>detail[i.Name]\<close>. \<open>fmt\<close> is the engine's conversion of a
  number to a string. An array joins its elements with commas, \<^verbatim>\<open>null\<close> and \<^verbatim>\<open>undefined\<close>
  elements as the empty string. A plain object gives \<^verbatim>\<open>[object Object]\<close> through the
  \<^verbatim>\<open>toString\<close> it inherits; when it has a property \<^verbatim>\<open>toString\<close> of its own, which in
  parsed JSON is never a function, the inherited \<^verbatim>\<open>valueOf\<close> returns the object itself
  and the conversion throws a TypeError.
\<close>

fun to_string :: "(int \<Rightarrow> string) \<Rightarrow> json \<Rightarrow> js_error + string" where
  "to_string fmt JUndefined = Inr ''undefined''"
| "to_string fmt JNull = Inr ''null''"
| "to_string fmt (JBool b) = Inr (if b then ''true'' else ''false'')"
| "to_string fmt (JNum n) = Inr (fmt n)"
| "to_string fmt (JStr s) = Inr s"
| "to_string fmt (JArr xs) =
     (case sequence (map (\<lambda>x. if is_nullish x then Inr [] else to_string fmt x) xs) of
        Inl e \<Rightarrow> Inl e
      | Inr strs \<Rightarrow> Inr (join '','' strs))"
| "to_string fmt (JObj m) =
     (if m ''toString'' = None then Inr ''[object Object]''
      else Inl (TypeError ''Cannot convert object to primitive value''))"

text \<open>The values whose conversion to a string throws.\<close>

fun unprintable :: "json \<Rightarrow> bool" where
  "unprintable (JObj m) = (m ''toString'' \<noteq> None)"
| "unprintable (JArr xs) = list_ex unprintable xs"
| "unprintable v = False"

section \<open>The order store\<close>

text \<open>
  \<^verbatim>\<open>const ORDERS = new Map()\<close>: checkout id to \<^verbatim>\<open>{ status, detail }\<close>. The three status
  strings the handlers write are \<^verbatim>\<open>'PENDING'\<close>, \<^verbatim>\<open>'SUCCESS'\<close> and \<^verbatim>\<open>'FAILED'\<close>.
\<close>

datatype order_status = PENDING | SUCCESS | FAILED

record order =
  status :: order_status
  detail :: json

text \<open>
  A \<^verbatim>\<open>Map\<close> compares keys with SameValueZero: primitives by value (a number and the
  string of its digits are different keys), objects and arrays by reference. Every object
  or array that reaches a handler is freshly parsed, so as a key it equals no other.
  The store is the list of the map's entries in insertion order.
\<close>

fun is_reference :: "json \<Rightarrow> bool" where
  "is_reference (JArr xs) = True"
| "is_reference (JObj m) = True"
| "is_reference v = False"

fun same_value_zero :: "json \<Rightarrow> json \<Rightarrow> bool" where
  "same_value_zero JUndefined JUndefined = True"
| "same_value_zero JNull JNull = True"
| "same_value_zero (JBool a) (JBool b) = (a = b)"
| "same_value_zero (JNum a) (JNum b) = (a = b)"
| "same_value_zero (JStr a) (JStr b) = (a = b)"
| "same_value_zero a b = False"

type_synonym orders = "(json \<times> order) list"

fun orders_get :: "orders \<Rightarrow> json \<Rightarrow> order option" where
  "orders_get [] k = None"
| "orders_get ((k', v') # rest) k = (if same_value_zero k' k then Some v' else orders_get rest k)"

fun orders_set :: "orders \<Rightarrow> json \<Rightarrow> order \<Rightarrow> orders" where
  "orders_set [] k v = [(k, v)]"
| "orders_set ((k', v') # rest) k v =
     (if same_value_zero k' k then (k', v) # rest else (k', v') # orders_set rest k v)"

section \<open>HTTP responses\<close>

record response =
  status_code :: nat
  json_body :: json

section \<open>POST /api/mpesa/callback\<close>

text \<open>
  The body of \<^verbatim>\<open>meta.Item.forEach(i => { if(i.Name && i.Value !== undefined)
  detail[i.Name] = i.Value; })\<close>. Reading \<^verbatim>\<open>i.Name\<close> of a \<^verbatim>\<open>null\<close> item throws, and so
  does the conversion of \<^verbatim>\<open>i.Name\<close> to a property key when \<open>to_string\<close> throws. The key
  \<^verbatim>\<open>__proto__\<close> reaches the setter of \<^verbatim>\<open>Object.prototype\<close>, here and again in
  \<^verbatim>\<open>Object.assign\<close>: it never becomes an own property of the stored detail.
\<close>

definition set_own :: "(string \<Rightarrow> json option) \<Rightarrow> string \<Rightarrow> json \<Rightarrow> (string \<Rightarrow> json option)" where
  "set_own d k v = (if k = ''__proto__'' then d else d(k \<mapsto> v))"

fun collect_items ::
  "(int \<Rightarrow> string) \<Rightarrow> json list \<Rightarrow> (string \<Rightarrow> json option) \<Rightarrow> js_error + (string \<Rightarrow> json option)" where
  "collect_items fmt [] d = Inr d"
| "collect_items fmt (i # rest) d =
     (if is_nullish i then Inl (TypeError ''Cannot read properties of null'')
      else if truthy (property i ''Name'') \<and> \<not> is_undefined (property i ''Value'')
      then (case to_string fmt (property i ''Name'') of
              Inl e \<Rightarrow> Inl e
            | Inr k \<Rightarrow> collect_items fmt rest (set_own d k (property i ''Value'')))
      else collect_items fmt rest d)"

definition callback_ack :: json where
  "callback_ack = JObj [''ResultCode'' \<mapsto> JNum 0, ''ResultDesc'' \<mapsto> JStr ''Received'']"

definition callback_error :: json where
  "callback_error = JObj [''error'' \<mapsto> JStr ''callback processing error'']"

definition stk_of :: "json \<Rightarrow> json" where
  "stk_of req_body =
     (let body = js_or req_body (JObj Map.empty)
      in js_or (js_or (js_and (property body ''Body'') (property (property body ''Body'') ''stkCallback''))
                      (property body ''stkCallback''))
               JNull)"

text \<open>
  The \<^verbatim>\<open>try\<close> block up to the acknowledgement: the store it leaves, or the error it
  throws. \<open>fmt\<close> is the engine's conversion of a number to a string, which the handler
  needs for an item named by a number. \<^verbatim>\<open>JSON.stringify(undefined)\<close> is \<^verbatim>\<open>undefined\<close>,
  whose \<^verbatim>\<open>slice\<close> throws.
  Every throw happens before the one \<^verbatim>\<open>ORDERS.set\<close> of its branch.
\<close>

definition callback_try :: "(int \<Rightarrow> string) \<Rightarrow> orders \<Rightarrow> json \<Rightarrow> js_error + orders" where
  "callback_try fmt ORDERS req_body =
     (if is_undefined req_body
      then Inl (TypeError ''Cannot read properties of undefined'')
      else
        let stk = stk_of req_body in
        if truthy stk \<and> truthy (property stk ''CheckoutRequestID'') then
          let checkoutId = property stk ''CheckoutRequestID'';
              resultCode = property stk ''ResultCode'';
              resultDesc = js_or (property stk ''ResultDesc'') (JStr '''');
              meta = js_or (js_or (property stk ''CallbackMetadata'') (property stk ''callbackMetadata'')) JNull
          in
          if strict_eq_num resultCode 0 then
            (case (if truthy meta \<and> is_array (property meta ''Item'')
                   then collect_items fmt (elements (property meta ''Item'')) Map.empty
                   else Inr Map.empty) of
               Inl e \<Rightarrow> Inl e
             | Inr d \<Rightarrow>
                 Inr (orders_set ORDERS checkoutId
                   \<lparr>status = SUCCESS, detail = JObj ([''ResultDesc'' \<mapsto> resultDesc] ++ d)\<rparr>))
          else
            Inr (orders_set ORDERS checkoutId
              \<lparr>status = FAILED,
               detail = JObj [''ResultCode'' \<mapsto> resultCode, ''ResultDesc'' \<mapsto> resultDesc]\<rparr>)
        else Inr ORDERS)"

definition callback :: "(int \<Rightarrow> string) \<Rightarrow> orders \<Rightarrow> json \<Rightarrow> response \<times> orders" where
  "callback fmt ORDERS req_body =
     (case callback_try fmt ORDERS req_body of
        Inr ORDERS' \<Rightarrow> (\<lparr>status_code = 200, json_body = callback_ack\<rparr>, ORDERS')
      | Inl e \<Rightarrow> (\<lparr>status_code = 500, json_body = callback_error\<rparr>, ORDERS))"

section \<open>GET /api/mpesa/status\<close>

fun status_string :: "order_status \<Rightarrow> string" where
  "status_string PENDING = ''PENDING''"
| "status_string SUCCESS = ''SUCCESS''"
| "status_string FAILED = ''FAILED''"

text \<open>
  \<open>req_query\<close> is \<^verbatim>\<open>req.query\<close>, the object of the parsed query string. \<^verbatim>\<open>ORDERS.get\<close>
  yields \<^verbatim>\<open>undefined\<close> for an unknown key and a record, which is truthy, otherwise.
\<close>

definition status_handler :: "orders \<Rightarrow> json \<Rightarrow> response" where
  "status_handler ORDERS req_query =
     (let checkoutId = property req_query ''checkoutId'' in
      if \<not> truthy checkoutId
      then \<lparr>status_code = 400, json_body = JObj [''error'' \<mapsto> JStr ''checkoutId required'']\<rparr>
      else
        (case orders_get ORDERS checkoutId of
           None \<Rightarrow> \<lparr>status_code = 200, json_body = JObj [''status'' \<mapsto> JStr ''PENDING'']\<rparr>
         | Some record \<Rightarrow>
             \<lparr>status_code = 200,
              json_body = JObj [''status'' \<mapsto> JStr (status_string (status record)),
                                ''detail'' \<mapsto> js_or (detail record) JNull]\<rparr>))"

section \<open>POST /api/mpesa/stkpush\<close>

text \<open>
  The environment variables the server reads at start. A variable that is not set is
  \<^verbatim>\<open>undefined\<close>; \<^verbatim>\<open>!X\<close> holds for an unset and for an empty one.
\<close>

record env =
  MPESA_ENV :: string
  MPESA_CONSUMER_KEY :: "string option"
  MPESA_CONSUMER_SECRET :: "string option"
  MPESA_SHORTCODE :: "string option"
  MPESA_PASSKEY :: "string option"
  MPESA_CALLBACK_URL :: "string option"

fun unset :: "string option \<Rightarrow> bool" where
  "unset None = True"
| "unset (Some s) = (s = [])"

fun env_string :: "string option \<Rightarrow> string" where
  "env_string None = ''undefined''"
| "env_string (Some s) = s"

fun env_json :: "string option \<Rightarrow> json" where
  "env_json None = JUndefined"
| "env_json (Some s) = JStr s"

definition BASE_URL :: "env \<Rightarrow> string" where
  "BASE_URL e = (if MPESA_ENV e = ''production'' then ''https://api.safaricom.co.ke''
                 else ''https://sandbox.safaricom.co.ke'')"

text \<open>
  What lies outside the program during one request: the clock as \<^verbatim>\<open>timestampNow\<close> formats
  it, the base64 encoding of \<^verbatim>\<open>Buffer\<close>, the engine's conversions of a string to a
  number (\<open>None\<close> is NaN) and of a number to a string, and the two HTTP calls of axios, each giving the \<^verbatim>\<open>data\<close> of the
  response or the error axios rejects with. \<open>oauth_get\<close> takes the URL and the
  \<^verbatim>\<open>Authorization\<close> header, \<open>stk_post\<close> the URL, the payload and the header.
\<close>

record world =
  timestampNow :: string
  base64 :: "string \<Rightarrow> string"
  string_to_number :: "string \<Rightarrow> int option"
  number_to_string :: "int \<Rightarrow> string"
  oauth_get :: "string \<Rightarrow> string \<Rightarrow> js_error + json"
  stk_post :: "string \<Rightarrow> json \<Rightarrow> string \<Rightarrow> js_error + json"

definition createPassword :: "world \<Rightarrow> string \<Rightarrow> string \<Rightarrow> string \<Rightarrow> string" where
  "createPassword w shortcode passkey timestamp = base64 w (shortcode @ passkey @ timestamp)"

definition getAccessToken :: "env \<Rightarrow> world \<Rightarrow> js_error + json" where
  "getAccessToken e w =
     (if unset (MPESA_CONSUMER_KEY e) \<or> unset (MPESA_CONSUMER_SECRET e)
      then Inl (Error ''Missing MPESA_CONSUMER_KEY/MPESA_CONSUMER_SECRET'')
      else
        let auth = base64 w (env_string (MPESA_CONSUMER_KEY e) @ '':'' @ env_string (MPESA_CONSUMER_SECRET e));
            url = BASE_URL e @ ''/oauth/v1/generate?grant_type=client_credentials''
        in case oauth_get w url (''Basic '' @ auth) of
             Inl err \<Rightarrow> Inl err
           | Inr data \<Rightarrow>
               if is_nullish data then Inl (TypeError ''Cannot read properties of undefined'')
               else Inr (property data ''access_token''))"

text \<open>
  \<^verbatim>\<open>Number(v)\<close>; \<open>None\<close> is NaN. An array or object converts through the string
  \<open>to_string\<close> gives (its inherited \<^verbatim>\<open>valueOf\<close> returns the object itself), and throws
  where that throws.
\<close>

fun to_number :: "world \<Rightarrow> json \<Rightarrow> js_error + int option" where
  "to_number w JUndefined = Inr None"
| "to_number w JNull = Inr (Some 0)"
| "to_number w (JBool b) = Inr (Some (if b then 1 else 0))"
| "to_number w (JNum n) = Inr (Some n)"
| "to_number w (JStr s) = Inr (string_to_number w s)"
| "to_number w (JArr xs) =
     (case to_string (number_to_string w) (JArr xs) of
        Inl e \<Rightarrow> Inl e | Inr s \<Rightarrow> Inr (string_to_number w s))"
| "to_number w (JObj m) =
     (case to_string (number_to_string w) (JObj m) of
        Inl e \<Rightarrow> Inl e | Inr s \<Rightarrow> Inr (string_to_number w s))"

text \<open>A number as a JSON value of the payload: NaN is serialised as \<^verbatim>\<open>null\<close>.\<close>

fun number_json :: "int option \<Rightarrow> json" where
  "number_json None = JNull"
| "number_json (Some n) = JNum n"

text \<open>
  The characters \<^verbatim>\<open>\s\<close> matches among the 8-bit characters: tab, line feed, vertical tab,
  form feed, carriage return, space and the no-break space.
\<close>

definition is_space :: "char \<Rightarrow> bool" where
  "is_space c = (of_char c \<in> {9, 10, 11, 12, 13, 32, 160 :: nat})"

text \<open>\<^verbatim>\<open>// normalize msisdn to 2547...\<close>, on the string that \<^verbatim>\<open>String(phone)\<close> gave.\<close>

definition normalize_msisdn :: "string \<Rightarrow> string" where
  "normalize_msisdn phone_string =
     (let m0 = filter (\<lambda>c. \<not> is_space c) phone_string;
          m1 = (if take 1 m0 = ''+'' then drop 1 m0 else m0)
      in if take 1 m1 = ''0'' then ''254'' @ drop 1 m1 else m1)"

text \<open>The three lines that compute \<^verbatim>\<open>msisdn\<close>; \<^verbatim>\<open>String(phone)\<close> can throw.\<close>

definition msisdn_of :: "world \<Rightarrow> json \<Rightarrow> js_error + string" where
  "msisdn_of w req_body =
     (case to_string (number_to_string w) (property req_body ''phone'') of
        Inl err \<Rightarrow> Inl err
      | Inr phone_string \<Rightarrow> Inr (normalize_msisdn phone_string))"

definition default_to :: "json \<Rightarrow> json \<Rightarrow> json" where
  "default_to v d = (if is_undefined v then d else v)"

definition checkout_id_of :: "json \<Rightarrow> json" where
  "checkout_id_of responseData =
     js_or (js_or (property responseData ''CheckoutRequestID'')
                  (property responseData ''checkoutRequestID''))
           (property responseData ''CheckoutRequestId'')"

text \<open>
  The object literal \<^verbatim>\<open>payload\<close>, for the \<open>msisdn\<close> computed before it. \<^verbatim>\<open>Number(amount)\<close>
  can throw; nothing else in the literal does.
\<close>

definition stk_payload :: "env \<Rightarrow> world \<Rightarrow> json \<Rightarrow> string \<Rightarrow> js_error + json" where
  "stk_payload e w req_body msisdn =
     (let accountRef = default_to (property req_body ''accountRef'') (JStr ''QikaoOrder'');
          description = default_to (property req_body ''description'') (JStr ''Qikao Grill Order'');
          ts = timestampNow w;
          password = createPassword w (env_string (MPESA_SHORTCODE e)) (env_string (MPESA_PASSKEY e)) ts
      in case to_number w (property req_body ''amount'') of
           Inl err \<Rightarrow> Inl err
         | Inr amount \<Rightarrow>
             Inr (JObj [''BusinessShortCode'' \<mapsto> env_json (MPESA_SHORTCODE e),
               ''Password'' \<mapsto> JStr password,
               ''Timestamp'' \<mapsto> JStr ts,
               ''TransactionType'' \<mapsto> JStr ''CustomerPayBillOnline'',
               ''Amount'' \<mapsto> number_json amount,
               ''PartyA'' \<mapsto> JStr msisdn,
               ''PartyB'' \<mapsto> env_json (MPESA_SHORTCODE e),
               ''PhoneNumber'' \<mapsto> JStr msisdn,
               ''CallBackURL'' \<mapsto> env_json (MPESA_CALLBACK_URL e),
               ''AccountReference'' \<mapsto> accountRef,
               ''TransactionDesc'' \<mapsto> description]))"

text \<open>
  The \<^verbatim>\<open>try\<close> block: the response and the store it leaves, or the error it throws.
  Destructuring a \<^verbatim>\<open>req.body\<close> that is \<^verbatim>\<open>undefined\<close> or \<^verbatim>\<open>null\<close> throws. So do, in the
  order of the source, \<^verbatim>\<open>String(phone)\<close> before the token request, and after it
  \<^verbatim>\<open>Number(amount)\<close> in the payload and the template literal of the \<^verbatim>\<open>Authorization\<close>
  header, both before the STK request is sent. Nothing can throw after \<^verbatim>\<open>ORDERS.set\<close>,
  so an error always leaves the store as it was.
\<close>

definition stkpush_try :: "env \<Rightarrow> world \<Rightarrow> orders \<Rightarrow> json \<Rightarrow> js_error + (response \<times> orders)" where
  "stkpush_try e w ORDERS req_body =
     (if is_nullish req_body then Inl (TypeError ''Cannot destructure property of req.body'')
      else if \<not> truthy (property req_body ''phone'') \<or> \<not> truthy (property req_body ''amount'')
      then Inr (\<lparr>status_code = 400,
                 json_body = JObj [''error'' \<mapsto> JStr ''phone and amount required'']\<rparr>, ORDERS)
      else if unset (MPESA_SHORTCODE e) \<or> unset (MPESA_PASSKEY e) \<or> unset (MPESA_CALLBACK_URL e)
      then Inr (\<lparr>status_code = 500,
                 json_body = JObj [''error'' \<mapsto>
                   JStr ''MPESA_SHORTCODE/MPESA_PASSKEY/MPESA_CALLBACK_URL not set'']\<rparr>, ORDERS)
      else
        (case msisdn_of w req_body of
           Inl err \<Rightarrow> Inl err
         | Inr msisdn \<Rightarrow>
        (case getAccessToken e w of
           Inl err \<Rightarrow> Inl err
         | Inr token \<Rightarrow>
        (case stk_payload e w req_body msisdn of
           Inl err \<Rightarrow> Inl err
         | Inr payload \<Rightarrow>
        (case to_string (number_to_string w) token of
           Inl err \<Rightarrow> Inl err
         | Inr token_string \<Rightarrow>
        (case stk_post w (BASE_URL e @ ''/mpesa/stkpush/v1/processrequest'') payload
                (''Bearer '' @ token_string) of
           Inl err \<Rightarrow> Inl err
         | Inr data \<Rightarrow>
             let responseData = js_or data (JObj Map.empty);
                 checkoutId = checkout_id_of responseData;
                 ORDERS' = (if truthy checkoutId
                            then orders_set ORDERS checkoutId
                                   \<lparr>status = PENDING, detail = responseData\<rparr>
                            else ORDERS)
             in Inr (\<lparr>status_code = 200,
                      json_body = JObj [''success'' \<mapsto> JBool True, ''data'' \<mapsto> responseData]\<rparr>,
                     ORDERS')))))))"

text \<open>\<^verbatim>\<open>err.response ? err.response.data : err.message\<close>\<close>

fun error_detail :: "js_error \<Rightarrow> json" where
  "error_detail (AxiosError (Some data) msg) = data"
| "error_detail (AxiosError None msg) = JStr msg"
| "error_detail (TypeError msg) = JStr msg"
| "error_detail (Error msg) = JStr msg"

definition stkpush :: "env \<Rightarrow> world \<Rightarrow> orders \<Rightarrow> json \<Rightarrow> response \<times> orders" where
  "stkpush e w ORDERS req_body =
     (case stkpush_try e w ORDERS req_body of
        Inr result \<Rightarrow> result
      | Inl err \<Rightarrow>
          (\<lparr>status_code = 500,
            json_body = JObj [''error'' \<mapsto> JStr ''STK push failed'', ''detail'' \<mapsto> error_detail err]\<rparr>,
           ORDERS))"

section \<open>The stkpush handler of the Express variant\<close>

text \<open>
  \<^verbatim>\<open>src/server/(nodejs,express)server.js\<close> serves the same route. The three patterns
  below are the ones the two files test a phone number with: the server variant uses the
  first, the page's click handler all three. \<^verbatim>\<open>\d\<close> is an ASCII digit and \<^verbatim>\<open>$\<close>, without
  the \<^verbatim>\<open>m\<close> flag, the end of the string.
\<close>

definition is_digit :: "char \<Rightarrow> bool" where
  "is_digit c = (48 \<le> (of_char c :: nat) \<and> (of_char c :: nat) \<le> 57)"

text \<open>\<^verbatim>\<open>/^0\d{8,9}$/\<close>\<close>

definition local_format :: "string \<Rightarrow> bool" where
  "local_format s =
     (take 1 s = ''0'' \<and> (length s = 9 \<or> length s = 10) \<and> list_all is_digit (drop 1 s))"

text \<open>\<^verbatim>\<open>/^254\d{9}$/\<close>\<close>

definition international_format :: "string \<Rightarrow> bool" where
  "international_format s = (take 3 s = ''254'' \<and> length s = 12 \<and> list_all is_digit (drop 3 s))"

text \<open>\<^verbatim>\<open>/^\+254\d{9}$/\<close>\<close>

definition plus_international_format :: "string \<Rightarrow> bool" where
  "plus_international_format s =
     (take 4 s = ''+254'' \<and> length s = 13 \<and> list_all is_digit (drop 4 s))"

text \<open>
  The handler up to the end of its \<^verbatim>\<open>// server-side validation\<close>: \<open>Inl\<close> is a throw (the
  \<^verbatim>\<open>catch\<close> answers 500), \<open>Inr (Some r)\<close> the early \<^verbatim>\<open>return\<close> of the response \<open>r\<close>, and
  \<open>Inr None\<close> the request that passes and goes on to the order record and the gateway.
  \<^verbatim>\<open>isNaN(amount)\<close> converts with \<^verbatim>\<open>Number\<close> first; \<^verbatim>\<open>String(phone)\<close> and that conversion
  can throw.
\<close>

definition stkpush_express_validation :: "world \<Rightarrow> json \<Rightarrow> js_error + response option" where
  "stkpush_express_validation w req_body =
     (if is_nullish req_body then Inl (TypeError ''Cannot destructure property of req.body'')
      else
        let phone = property req_body ''phone'';
            amount = property req_body ''amount''
        in
        if \<not> truthy phone \<or> \<not> truthy amount
        then Inr (Some \<lparr>status_code = 400,
                         json_body = JObj [''error'' \<mapsto> JStr ''phone and amount required'']\<rparr>)
        else
          (case to_string (number_to_string w) phone of
             Inl err \<Rightarrow> Inl err
           | Inr phone_string \<Rightarrow>
               if \<not> local_format phone_string
               then Inr (Some \<lparr>status_code = 400,
                           json_body = JObj [''error'' \<mapsto> JStr ''Invalid phone number format'']\<rparr>)
               else
                 (case to_number w amount of
                    Inl err \<Rightarrow> Inl err
                  | Inr None \<Rightarrow>
                      Inr (Some \<lparr>status_code = 400,
                             json_body = JObj [''error'' \<mapsto> JStr ''Invalid amount'']\<rparr>)
                  | Inr (Some n) \<Rightarrow>
                      if n \<le> 0
                      then Inr (Some \<lparr>status_code = 400,
                             json_body = JObj [''error'' \<mapsto> JStr ''Invalid amount'']\<rparr>)
                      else Inr None)))"

section \<open>The callback handler of the Express variant\<close>

text \<open>\<^verbatim>\<open>v?.k\<close>: \<^verbatim>\<open>undefined\<close> where \<^verbatim>\<open>v\<close> is \<^verbatim>\<open>null\<close> or \<^verbatim>\<open>undefined\<close>.\<close>

definition optional_property :: "json \<Rightarrow> string \<Rightarrow> json" where
  "optional_property v k = (if is_nullish v then JUndefined else property v k)"

text \<open>
  The loop \<^verbatim>\<open>for (const it of CallbackMetadata.Item)\<close> compares \<^verbatim>\<open>it.Name\<close> with three
  names; reading it of a \<^verbatim>\<open>null\<close> item throws. \<open>True\<close> when the loop throws.
\<close>

definition express_items_throw :: "json \<Rightarrow> bool" where
  "express_items_throw stkCallback =
     (let CallbackMetadata = property stkCallback ''CallbackMetadata'' in
      truthy CallbackMetadata \<and> is_array (property CallbackMetadata ''Item'')
      \<and> list_ex is_nullish (elements (property CallbackMetadata ''Item'')))"

text \<open>
  The response of the handler. What it writes goes to the \<^verbatim>\<open>Payment\<close> and \<^verbatim>\<open>Order\<close>
  collections of the database, inside a \<^verbatim>\<open>try\<close> of its own whose \<^verbatim>\<open>catch\<close> only logs:
  the response does not depend on it.
\<close>

definition callback_express :: "json \<Rightarrow> response" where
  "callback_express req_body =
     (if is_undefined req_body
      then \<lparr>status_code = 500,
            json_body = JObj [''ResultCode'' \<mapsto> JNum 1, ''ResultDesc'' \<mapsto> JStr ''Server error'']\<rparr>
      else
        let stkCallback = optional_property (optional_property req_body ''Body'') ''stkCallback'' in
        if \<not> truthy stkCallback
        then \<lparr>status_code = 200,
              json_body = JObj [''ResultCode'' \<mapsto> JNum 0, ''ResultDesc'' \<mapsto> JStr ''Received'']\<rparr>
        else if express_items_throw stkCallback
        then \<lparr>status_code = 500,
              json_body = JObj [''ResultCode'' \<mapsto> JNum 1, ''ResultDesc'' \<mapsto> JStr ''Server error'']\<rparr>
        else \<lparr>status_code = 200,
              json_body = JObj [''ResultCode'' \<mapsto> JNum 0, ''ResultDesc'' \<mapsto> JStr ''Success'']\<rparr>)"

section \<open>The page: the pay button and the poller\<close>

text \<open>
  What the page writes into the element \<^verbatim>\<open>mpesa-status\<close>:
  \<^item> \<open>EnterValidPhone\<close>: \<^verbatim>\<open>Enter a valid Kenya phone number (07...)\<close>
  \<^item> \<open>EnterAmount\<close>: \<^verbatim>\<open>Enter an amount\<close>
  \<^item> \<open>PromptSent\<close>: \<^verbatim>\<open>M-Pesa prompt sent\<close> and the request to enter the PIN
  \<^item> \<open>PaymentConfirmed\<close>: \<^verbatim>\<open>Payment confirmed\<close> and the thanks, in bold
  \<^item> \<open>NotConfirmedYet\<close>: \<^verbatim>\<open>Payment not confirmed yet. Check your phone or try again later.\<close>
\<close>

datatype status_text = EnterValidPhone | EnterAmount | PromptSent | PaymentConfirmed | NotConfirmedYet

definition trim :: "string \<Rightarrow> string" where
  "trim s = rev (dropWhile is_space (rev (dropWhile is_space s)))"

text \<open>
  The \<^verbatim>\<open>// basic validation\<close> of the click handler on the two input values: the message
  it shows when it returns early, \<open>None\<close> when it goes on to \<^verbatim>\<open>fetch\<close>.
\<close>

definition mpesa_pay_validation :: "world \<Rightarrow> string \<Rightarrow> string \<Rightarrow> status_text option" where
  "mpesa_pay_validation w phone_value amount_value =
     (let phone = trim phone_value;
          amount = string_to_number w amount_value
      in if \<not> local_format phone \<and> \<not> international_format phone \<and> \<not> plus_international_format phone
         then Some EnterValidPhone
         else if (case amount of None \<Rightarrow> True | Some n \<Rightarrow> n = 0 \<or> n \<le> 0)
         then Some EnterAmount
         else None)"

text \<open>
  \<^verbatim>\<open>pollForPayment\<close> starts an interval whose callback counts the attempts; \<open>interval\<close>
  says whether the timer is still set. The callback reads \<^verbatim>\<open>attempts\<close> and \<^verbatim>\<open>max\<close> and
  nothing else: the \<^verbatim>\<open>fetch\<close> of the status endpoint is a comment in the source.
\<close>

record page =
  status_html :: status_text
  pay_disabled :: bool
  attempts :: nat
  interval :: bool

definition pollForPayment :: "json \<Rightarrow> page \<Rightarrow> page" where
  "pollForPayment checkoutRequestID pg = pg\<lparr>attempts := 0, interval := True\<rparr>"

definition max_attempts :: nat where
  "max_attempts = 8"

text \<open>One firing of the timer; a cleared interval fires no more.\<close>

definition interval_tick :: "page \<Rightarrow> page" where
  "interval_tick pg =
     (if \<not> interval pg then pg
      else
        let pg1 = pg\<lparr>attempts := attempts pg + 1\<rparr> in
        if attempts pg1 = 3
        then pg1\<lparr>interval := False, status_html := PaymentConfirmed, pay_disabled := False\<rparr>
        else if attempts pg1 \<ge> max_attempts
        then pg1\<lparr>interval := False, status_html := NotConfirmedYet, pay_disabled := False\<rparr>
        else pg1)"

text \<open>The page when the server has accepted the request, just before polling starts.\<close>

definition page_prompt_sent :: page where
  "page_prompt_sent = \<lparr>status_html = PromptSent, pay_disabled = True, attempts = 0, interval = False\<rparr>"

section \<open>Names for the parts of a request, and example inputs\<close>

text \<open>
  What the callback handler reads from a request body, under the names the source gives
  its local constants: \<^verbatim>\<open>checkoutId\<close>, \<^verbatim>\<open>resultCode\<close>, \<^verbatim>\<open>resultDesc\<close>, \<^verbatim>\<open>meta\<close> and the
  elements of \<^verbatim>\<open>meta.Item\<close>.
\<close>

abbreviation checkout_id_in :: "json \<Rightarrow> json" where
  "checkout_id_in req_body \<equiv> property (stk_of req_body) ''CheckoutRequestID''"

abbreviation result_code_in :: "json \<Rightarrow> json" where
  "result_code_in req_body \<equiv> property (stk_of req_body) ''ResultCode''"

abbreviation result_desc_in :: "json \<Rightarrow> json" where
  "result_desc_in req_body \<equiv> js_or (property (stk_of req_body) ''ResultDesc'') (JStr '''')"

abbreviation metadata_in :: "json \<Rightarrow> json" where
  "metadata_in req_body \<equiv>
     js_or (js_or (property (stk_of req_body) ''CallbackMetadata'')
                  (property (stk_of req_body) ''callbackMetadata'')) JNull"

abbreviation items_in :: "json \<Rightarrow> json list" where
  "items_in req_body \<equiv> elements (property (metadata_in req_body) ''Item'')"

text \<open>
  The items on which the body of the loop throws: a \<^verbatim>\<open>null\<close> item, and an item with a
  value whose name cannot be converted to a property key.
\<close>

abbreviation item_throws :: "json \<Rightarrow> bool" where
  "item_throws i \<equiv>
     is_nullish i \<or>
     (truthy (property i ''Name'') \<and> \<not> is_undefined (property i ''Value'')
        \<and> unprintable (property i ''Name''))"

text \<open>A callback whose result code is the string \<^verbatim>\<open>"0"\<close>, not the number.\<close>

definition string_zero_callback :: json where
  "string_zero_callback =
     JObj [''Body'' \<mapsto> JObj [''stkCallback'' \<mapsto>
       JObj [''CheckoutRequestID'' \<mapsto> JStr ''ws_1'', ''ResultCode'' \<mapsto> JStr ''0'',
             ''ResultDesc'' \<mapsto> JStr ''done'']]]"

text \<open>A callback without \<^verbatim>\<open>ResultCode\<close>.\<close>

definition no_code_callback :: json where
  "no_code_callback =
     JObj [''Body'' \<mapsto> JObj [''stkCallback'' \<mapsto>
       JObj [''CheckoutRequestID'' \<mapsto> JStr ''ws_1'']]]"

text \<open>A store in which the payment \<^verbatim>\<open>ws_1\<close> has succeeded, and a body without envelope.\<close>

definition paid_store :: orders where
  "paid_store = [(JStr ''ws_1'', \<lparr>status = SUCCESS,
       detail = JObj [''ResultDesc'' \<mapsto> JStr ''ok'', ''MpesaReceiptNumber'' \<mapsto> JStr ''QAX123'']\<rparr>)]"

definition no_envelope_callback :: json where
  "no_envelope_callback = JObj [''foo'' \<mapsto> JStr ''bar'']"


text \<open>
  The scenario of the specification: the intent \<^verbatim>\<open>ws_1\<close> is pending, and the callback
  reports result code 0 with the amount, the receipt number and the phone number.
\<close>

definition pending_store :: orders where
  "pending_store = [(JStr ''ws_1'', \<lparr>status = PENDING,
       detail = JObj [''CheckoutRequestID'' \<mapsto> JStr ''ws_1'', ''ResponseCode'' \<mapsto> JStr ''0'']\<rparr>)]"

definition success_items :: "json list" where
  "success_items =
     [JObj [''Name'' \<mapsto> JStr ''Amount'', ''Value'' \<mapsto> JNum 150],
      JObj [''Name'' \<mapsto> JStr ''MpesaReceiptNumber'', ''Value'' \<mapsto> JStr ''QAX123''],
      JObj [''Name'' \<mapsto> JStr ''PhoneNumber'', ''Value'' \<mapsto> JNum 254712345678]]"

definition success_callback :: json where
  "success_callback =
     JObj [''Body'' \<mapsto> JObj [''stkCallback'' \<mapsto>
       JObj [''CheckoutRequestID'' \<mapsto> JStr ''ws_1'', ''ResultCode'' \<mapsto> JNum 0,
             ''ResultDesc'' \<mapsto> JStr ''processed'',
             ''CallbackMetadata'' \<mapsto> JObj [''Item'' \<mapsto> JArr success_items]]]]"

text \<open>A success callback whose metadata list holds \<^verbatim>\<open>null\<close>, and a cancellation (code 1032).\<close>

definition null_item_callback :: json where
  "null_item_callback =
     JObj [''Body'' \<mapsto> JObj [''stkCallback'' \<mapsto>
       JObj [''CheckoutRequestID'' \<mapsto> JStr ''ws_1'', ''ResultCode'' \<mapsto> JNum 0,
             ''ResultDesc'' \<mapsto> JStr ''processed'',
             ''CallbackMetadata'' \<mapsto> JObj [''Item'' \<mapsto> JArr [JNull]]]]]"

definition cancelled_callback :: json where
  "cancelled_callback =
     JObj [''Body'' \<mapsto> JObj [''stkCallback'' \<mapsto>
       JObj [''CheckoutRequestID'' \<mapsto> JStr ''ws_1'', ''ResultCode'' \<mapsto> JNum 1032,
             ''ResultDesc'' \<mapsto> JStr ''Request cancelled by user'']]]"

text \<open>The branches of the stkpush handler, named.\<close>

abbreviation config_unset :: "env \<Rightarrow> bool" where
  "config_unset e \<equiv> unset (MPESA_SHORTCODE e) \<or> unset (MPESA_PASSKEY e) \<or> unset (MPESA_CALLBACK_URL e)"

abbreviation stk_request :: "env \<Rightarrow> world \<Rightarrow> json \<Rightarrow> string \<Rightarrow> js_error + json" where
  "stk_request e w payload token_string \<equiv>
     stk_post w (BASE_URL e @ ''/mpesa/stkpush/v1/processrequest'') payload
       (''Bearer '' @ token_string)"

abbreviation conversion_error :: js_error where
  "conversion_error \<equiv> TypeError ''Cannot convert object to primitive value''"

abbreviation stk_failure :: "js_error \<Rightarrow> response" where
  "stk_failure err \<equiv>
     \<lparr>status_code = 500,
      json_body = JObj [''error'' \<mapsto> JStr ''STK push failed'', ''detail'' \<mapsto> error_detail err]\<rparr>"

abbreviation stk_success :: "json \<Rightarrow> response" where
  "stk_success responseData \<equiv>
     \<lparr>status_code = 200,
      json_body = JObj [''success'' \<mapsto> JBool True, ''data'' \<mapsto> responseData]\<rparr>"

text \<open>
  A configured server and a gateway that answers every request with \<open>data\<close>. The encoding
  and the conversion of strings to numbers stand in for the library's: no branch of the
  handlers depends on what they return, and the example requests carry their amounts as
  numbers and their phones and names as strings.
\<close>

definition demo_env :: env where
  "demo_env = \<lparr>MPESA_ENV = ''sandbox'', MPESA_CONSUMER_KEY = Some ''key'',
     MPESA_CONSUMER_SECRET = Some ''secret'', MPESA_SHORTCODE = Some ''174379'',
     MPESA_PASSKEY = Some ''passkey'',
     MPESA_CALLBACK_URL = Some ''https://example.com/api/mpesa/callback''\<rparr>"

definition demo_world :: "json \<Rightarrow> world" where
  "demo_world data =
     \<lparr>timestampNow = ''20250101120000'',
      base64 = (\<lambda>s. s),
      string_to_number = (\<lambda>s. None),
      number_to_string = show_int,
      oauth_get = (\<lambda>url auth. Inr (JObj [''access_token'' \<mapsto> JStr ''token''])),
      stk_post = (\<lambda>url payload auth. Inr data)\<rparr>"

definition accepted_data :: json where
  "accepted_data = JObj [''CheckoutRequestID'' \<mapsto> JStr ''ws_1'', ''ResponseCode'' \<mapsto> JStr ''0'']"


definition demo_request :: json where
  "demo_request = JObj [''phone'' \<mapsto> JStr ''0712345678'', ''amount'' \<mapsto> JNum 150]"



text \<open>
  A success callback with an item whose name is an object with a property \<^verbatim>\<open>toString\<close>,
  and an initiation request with such a phone.
\<close>

definition unprintable_name_callback :: json where
  "unprintable_name_callback =
     JObj [''Body'' \<mapsto> JObj [''stkCallback'' \<mapsto>
       JObj [''CheckoutRequestID'' \<mapsto> JStr ''ws_1'', ''ResultCode'' \<mapsto> JNum 0,
             ''ResultDesc'' \<mapsto> JStr ''processed'',
             ''CallbackMetadata'' \<mapsto> JObj [''Item'' \<mapsto>
                JArr [JObj [''Name'' \<mapsto> JObj [''toString'' \<mapsto> JNum 1],
                            ''Value'' \<mapsto> JNum 5]]]]]]"

definition unprintable_phone_request :: json where
  "unprintable_phone_request =
     JObj [''phone'' \<mapsto> JObj [''toString'' \<mapsto> JNum 1], ''amount'' \<mapsto> JNum 150]"

text \<open>Two requests a client can post: a negative amount, and a phone that is no number.\<close>

definition negative_request :: json where
  "negative_request = JObj [''phone'' \<mapsto> JStr ''0712345678'', ''amount'' \<mapsto> JNum (- 5)]"

definition foreign_request :: json where
  "foreign_request = JObj [''phone'' \<mapsto> JStr ''hello'', ''amount'' \<mapsto> JNum 150]"

text \<open>A store in which the payment \<^verbatim>\<open>ws_1\<close> was cancelled by the user.\<close>

definition failed_store :: orders where
  "failed_store = [(JStr ''ws_1'', \<lparr>status = FAILED,
       detail = JObj [''ResultCode'' \<mapsto> JNum 1032, ''ResultDesc'' \<mapsto> JStr ''Request cancelled by user'']\<rparr>)]"

section \<open>Facts about the store\<close>

lemma same_value_zero_eq: "same_value_zero a b \<Longrightarrow> a = b \<and> \<not> is_reference a"
  by (cases a; cases b) auto

lemma same_value_zero_refl: "\<not> is_reference a \<Longrightarrow> same_value_zero a a"
  by (cases a) auto

lemma orders_get_set_same: "\<not> is_reference k \<Longrightarrow> orders_get (orders_set s k v) k = Some v"
  by (induction s) (auto simp: same_value_zero_refl dest: same_value_zero_eq)

lemma orders_get_set_other:
  "\<not> same_value_zero k k' \<Longrightarrow> orders_get (orders_set s k v) k' = orders_get s k'"
  by (induction s) (auto dest: same_value_zero_eq)

lemma orders_set_twice:
  "\<not> is_reference k \<Longrightarrow> orders_set (orders_set s k v) k v' = orders_set s k v'"
  by (induction s) (auto simp: same_value_zero_refl dest: same_value_zero_eq)

lemma orders_set_member: "(k, v) \<in> set (orders_set s k v)"
  by (induction s) (auto dest: same_value_zero_eq)

section \<open>Facts about the conversions\<close>

lemma strict_eq_num_iff: "strict_eq_num v n \<longleftrightarrow> v = JNum n"
  by (cases v) auto

text \<open>The falsy values are \<^verbatim>\<open>undefined\<close>, \<^verbatim>\<open>null\<close>, \<^verbatim>\<open>false\<close>, 0 and the empty string.\<close>

lemma truthy_iff:
  "truthy v \<longleftrightarrow> v \<noteq> JUndefined \<and> v \<noteq> JNull \<and> v \<noteq> JBool False \<and> v \<noteq> JNum 0 \<and> v \<noteq> JStr []"
  by (cases v) auto

lemma js_or_iff: "js_or a b = c \<longleftrightarrow> (truthy a \<and> c = a) \<or> (\<not> truthy a \<and> c = b)"
  by (auto simp: js_or_def)

lemma js_and_iff: "js_and a b = c \<longleftrightarrow> (truthy a \<and> c = b) \<or> (\<not> truthy a \<and> c = a)"
  by (auto simp: js_and_def)

lemma nullish_iff: "is_nullish v \<longleftrightarrow> v = JUndefined \<or> v = JNull"
  by (cases v) auto

lemma undefined_iff: "is_undefined v \<longleftrightarrow> v = JUndefined"
  by (cases v) auto

lemma sequence_throws: "sequence ys = Inl e \<Longrightarrow> Inl e \<in> set ys"
proof (induction ys rule: sequence.induct)
  case (3 x rest)
  then show ?case by (cases "sequence rest") auto
qed auto

lemma sequence_returns: "\<forall>y \<in> set ys. \<exists>x. y = Inr x \<Longrightarrow> \<exists>xs. sequence ys = Inr xs"
proof (induction ys rule: sequence.induct)
  case (3 x rest)
  then show ?case by (cases "sequence rest") auto
qed auto

lemma sequence_of_throw: "Inl e \<in> set ys \<Longrightarrow> \<exists>e'. sequence ys = Inl e'"
proof (induction ys rule: sequence.induct)
  case (3 x rest)
  then show ?case by (cases "sequence rest") auto
qed auto

text \<open>\<open>to_string\<close> throws on the unprintable values and on no other, always the same error.\<close>

lemma to_string_cases:
  "(unprintable v \<longrightarrow> to_string fmt v = Inl conversion_error)
   \<and> (\<not> unprintable v \<longrightarrow> (\<exists>s. to_string fmt v = Inr s))"
proof (induction fmt v rule: to_string.induct)
  case (6 fmt xs)
  let ?ys = "map (\<lambda>x. if is_nullish x then Inr [] else to_string fmt x) xs"
  have el: "\<And>x. x \<in> set xs \<Longrightarrow>
      (unprintable x \<longrightarrow> (if is_nullish x then Inr [] else to_string fmt x) = Inl conversion_error)
      \<and> (\<not> unprintable x \<longrightarrow> (\<exists>s. (if is_nullish x then Inr [] else to_string fmt x) = Inr s))"
  proof -
    fix x assume x: "x \<in> set xs"
    show "(unprintable x \<longrightarrow> (if is_nullish x then Inr [] else to_string fmt x) = Inl conversion_error)
      \<and> (\<not> unprintable x \<longrightarrow> (\<exists>s. (if is_nullish x then Inr [] else to_string fmt x) = Inr s))"
    proof (cases "is_nullish x")
      case True
      then show ?thesis by (cases x) auto
    next
      case False
      with 6 [OF x] show ?thesis by simp
    qed
  qed
  show ?case
  proof (cases "list_ex unprintable xs")
    case True
    then obtain x where x: "x \<in> set xs" "unprintable x" by (auto simp: list_ex_iff)
    from el [OF x(1)] x(2)
    have "(if is_nullish x then Inr [] else to_string fmt x) = Inl conversion_error" by blast
    moreover have "(\<lambda>x. if is_nullish x then Inr [] else to_string fmt x) x \<in> set ?ys"
      unfolding set_map using x(1) by (rule imageI)
    ultimately have "Inl conversion_error \<in> set ?ys"
      by (simp only:)
    then obtain e' where e': "sequence ?ys = Inl e'" using sequence_of_throw by blast
    then have "Inl e' \<in> set ?ys" by (rule sequence_throws)
    then obtain y where y: "y \<in> set xs" "(if is_nullish y then Inr [] else to_string fmt y) = Inl e'"
      by auto
    have "e' = conversion_error"
    proof (cases "unprintable y")
      case True
      with el [OF y(1)] y(2) show ?thesis by simp
    next
      case False
      with el [OF y(1)] obtain s where "(if is_nullish y then Inr [] else to_string fmt y) = Inr s"
        by blast
      with y(2) show ?thesis by simp
    qed
    with e' True show ?thesis by simp
  next
    case False
    have "\<forall>y \<in> set ?ys. \<exists>s. y = Inr s"
    proof
      fix y assume "y \<in> set ?ys"
      then obtain x where x: "x \<in> set xs" "y = (if is_nullish x then Inr [] else to_string fmt x)"
        by auto
      from False x(1) have "\<not> unprintable x" by (auto simp: list_ex_iff)
      with el [OF x(1)] x(2) show "\<exists>s. y = Inr s" by blast
    qed
    then obtain strs where "sequence ?ys = Inr strs" using sequence_returns by blast
    with False show ?thesis by simp
  qed
qed auto

lemma to_string_throws: "unprintable v \<Longrightarrow> to_string fmt v = Inl conversion_error"
  using to_string_cases by blast

lemma to_string_returns: "\<not> unprintable v \<Longrightarrow> \<exists>s. to_string fmt v = Inr s"
  using to_string_cases by blast

lemma to_string_Inr: "to_string fmt v = Inr s \<Longrightarrow> \<not> unprintable v"
  using to_string_throws [of v fmt] by auto

lemma to_string_Inl: "to_string fmt v = Inl e \<Longrightarrow> unprintable v \<and> e = conversion_error"
  using to_string_cases [of v fmt] by auto

lemma to_number_cases:
  "(unprintable v \<longrightarrow> to_number w v = Inl conversion_error)
   \<and> (\<not> unprintable v \<longrightarrow> (\<exists>n. to_number w v = Inr n))"
proof (cases v)
  case (JArr xs)
  then show ?thesis using to_string_cases [of v "number_to_string w"] by auto
next
  case (JObj m)
  then show ?thesis using to_string_cases [of v "number_to_string w"] by auto
qed auto

lemma to_number_Inl: "to_number w v = Inl e \<Longrightarrow> unprintable v \<and> e = conversion_error"
  using to_number_cases [of v w] by auto

section \<open>Facts about the callback handler\<close>

lemma collect_items_throws:
  "(\<exists>e. collect_items fmt xs d = Inl e) \<longleftrightarrow> list_ex item_throws xs"
proof (induction xs arbitrary: d)
  case Nil
  then show ?case by simp
next
  case (Cons i rest)
  show ?case
  proof (cases "is_nullish i")
    case True
    then show ?thesis by simp
  next
    case nn: False
    show ?thesis
    proof (cases "truthy (property i ''Name'') \<and> \<not> is_undefined (property i ''Value'')")
      case False
      with nn Cons show ?thesis by auto
    next
      case named: True
      show ?thesis
      proof (cases "unprintable (property i ''Name'')")
        case True
        with nn named show ?thesis by (simp add: to_string_throws)
      next
        case False
        then obtain k where "to_string fmt (property i ''Name'') = Inr k"
          using to_string_returns by blast
        with nn named False Cons show ?thesis by simp
      qed
    qed
  qed
qed

text \<open>
  When the body of the loop throws on no item, the loop ends, and the object it has
  filled holds, under each key, the value of the last item whose name converts to it.
\<close>

lemma collect_items_result:
  assumes "\<not> list_ex item_throws xs"
  shows "\<exists>d'. collect_items fmt xs d = Inr d' \<and>
     (\<forall>k. d' k =
        (let named = filter (\<lambda>i. truthy (property i ''Name'') \<and> \<not> is_undefined (property i ''Value'')
                                   \<and> to_string fmt (property i ''Name'') = Inr k) xs
         in if k = ''__proto__'' \<or> named = [] then d k else Some (property (last named) ''Value'')))"
  using assms
proof (induction xs arbitrary: d)
  case Nil
  then show ?case by simp
next
  case (Cons i rest)
  from Cons.prems have ni: "\<not> is_nullish i" and nr: "\<not> list_ex item_throws rest" by auto
  show ?case
  proof (cases "truthy (property i ''Name'') \<and> \<not> is_undefined (property i ''Value'')")
    case False
    from Cons.IH [OF nr, of d] obtain d' where
      d': "collect_items fmt rest d = Inr d'" and
      spec: "\<And>k. d' k =
        (let named = filter (\<lambda>i. truthy (property i ''Name'') \<and> \<not> is_undefined (property i ''Value'')
                                   \<and> to_string fmt (property i ''Name'') = Inr k) rest
         in if k = ''__proto__'' \<or> named = [] then d k else Some (property (last named) ''Value''))"
      by blast
    have "collect_items fmt (i # rest) d = Inr d'" using ni False d' by auto
    moreover have "d' k =
        (let named = filter (\<lambda>i. truthy (property i ''Name'') \<and> \<not> is_undefined (property i ''Value'')
                                   \<and> to_string fmt (property i ''Name'') = Inr k) (i # rest)
         in if k = ''__proto__'' \<or> named = [] then d k else Some (property (last named) ''Value''))" for k
      unfolding spec [of k] using False by auto
    ultimately show ?thesis by blast
  next
    case named: True
    with Cons.prems ni have "\<not> unprintable (property i ''Name'')" by auto
    then obtain key where key: "to_string fmt (property i ''Name'') = Inr key"
      using to_string_returns by blast
    let ?d2 = "set_own d key (property i ''Value'')"
    from Cons.IH [OF nr, of ?d2] obtain d' where
      d': "collect_items fmt rest ?d2 = Inr d'" and
      spec: "\<And>k. d' k =
        (let named = filter (\<lambda>i. truthy (property i ''Name'') \<and> \<not> is_undefined (property i ''Value'')
                                   \<and> to_string fmt (property i ''Name'') = Inr k) rest
         in if k = ''__proto__'' \<or> named = [] then ?d2 k else Some (property (last named) ''Value''))"
      by blast
    have "collect_items fmt (i # rest) d = Inr d'" using ni named key d' by simp
    moreover have "d' k =
        (let named = filter (\<lambda>i. truthy (property i ''Name'') \<and> \<not> is_undefined (property i ''Value'')
                                   \<and> to_string fmt (property i ''Name'') = Inr k) (i # rest)
         in if k = ''__proto__'' \<or> named = [] then d k else Some (property (last named) ''Value''))" for k
      unfolding spec [of k] using named key by (simp add: set_own_def Let_def)
    ultimately show ?thesis by blast
  qed
qed

lemma property_falsy: "\<not> truthy v \<Longrightarrow> property v k = JUndefined"
  by (cases v) auto

lemma elements_not_array: "\<not> is_array v \<Longrightarrow> elements v = []"
  by (cases v) auto

text \<open>The guard \<^verbatim>\<open>meta && Array.isArray(meta.Item)\<close> only skips an empty loop.\<close>

lemma guarded_items:
  "(if truthy m \<and> is_array (property m ''Item'')
    then collect_items fmt (elements (property m ''Item'')) d else Inr d)
   = collect_items fmt (elements (property m ''Item'')) d"
  by (auto simp: property_falsy elements_not_array)

text \<open>A request without body has no envelope.\<close>

lemma stk_of_undefined: "truthy (stk_of b) \<Longrightarrow> \<not> is_undefined b"
  by (cases b) (auto simp: stk_of_def js_or_def js_and_def)

lemma callback_try_unfold:
  "callback_try fmt ORDERS b =
     (if is_undefined b then Inl (TypeError ''Cannot read properties of undefined'')
      else if truthy (stk_of b) \<and> truthy (checkout_id_in b) then
        if result_code_in b = JNum 0 then
          (case collect_items fmt (items_in b) Map.empty of
             Inl e \<Rightarrow> Inl e
           | Inr d \<Rightarrow> Inr (orders_set ORDERS (checkout_id_in b)
               \<lparr>status = SUCCESS, detail = JObj ([''ResultDesc'' \<mapsto> result_desc_in b] ++ d)\<rparr>))
        else Inr (orders_set ORDERS (checkout_id_in b)
               \<lparr>status = FAILED,
                detail = JObj [''ResultCode'' \<mapsto> result_code_in b, ''ResultDesc'' \<mapsto> result_desc_in b]\<rparr>)
      else Inr ORDERS)"
  unfolding callback_try_def Let_def guarded_items strict_eq_num_iff by simp

lemma callback_try_throws:
  "(\<exists>e. callback_try fmt ORDERS b = Inl e) \<longleftrightarrow>
     (is_undefined b \<or>
      (truthy (stk_of b) \<and> truthy (checkout_id_in b) \<and> result_code_in b = JNum 0
        \<and> list_ex item_throws (items_in b)))"
proof (cases "list_ex item_throws (items_in b)")
  case True
  then obtain e where "collect_items fmt (items_in b) Map.empty = Inl e"
    using collect_items_throws [of fmt "items_in b" Map.empty] by blast
  with True show ?thesis
    by (auto simp: callback_try_unfold)
next
  case False
  then obtain d where "collect_items fmt (items_in b) Map.empty = Inr d"
    using collect_items_result [of "items_in b" fmt Map.empty] by blast
  with False show ?thesis
    by (auto simp: callback_try_unfold)
qed

text \<open>Each handler leaves the store as it was or sets one key.\<close>

lemma callback_store:
  "snd (callback fmt ORDERS b) = ORDERS \<or>
   (\<exists>m. truthy (checkout_id_in b) \<and>
      snd (callback fmt ORDERS b) =
        orders_set ORDERS (checkout_id_in b)
          \<lparr>status = (if result_code_in b = JNum 0 then SUCCESS else FAILED), detail = JObj m\<rparr>)"
  by (cases "collect_items fmt (items_in b) Map.empty") (auto simp: callback_def callback_try_unfold)

section \<open>Facts about the stkpush handler\<close>

lemma stkpush_invalid:
  assumes "\<not> is_nullish rb"
    and "\<not> truthy (property rb ''phone'') \<or> \<not> truthy (property rb ''amount'')"
  shows "stkpush e w ORDERS rb =
     (\<lparr>status_code = 400, json_body = JObj [''error'' \<mapsto> JStr ''phone and amount required'']\<rparr>,
      ORDERS)"
  using assms by (auto simp: stkpush_def stkpush_try_def)

lemma stkpush_config:
  assumes "\<not> is_nullish rb" and "truthy (property rb ''phone'')" and "truthy (property rb ''amount'')"
    and "config_unset e"
  shows "stkpush e w ORDERS rb =
     (\<lparr>status_code = 500,
       json_body = JObj [''error'' \<mapsto>
                   JStr ''MPESA_SHORTCODE/MPESA_PASSKEY/MPESA_CALLBACK_URL not set'']\<rparr>, ORDERS)"
  using assms by (auto simp: stkpush_def stkpush_try_def)

text \<open>A phone that cannot be converted to a string ends the handler before any request.\<close>

lemma stkpush_phone_throws:
  assumes "\<not> is_nullish rb" and "truthy (property rb ''phone'')" and "truthy (property rb ''amount'')"
    and "\<not> config_unset e" and "unprintable (property rb ''phone'')"
  shows "stkpush e w ORDERS rb = (stk_failure conversion_error, ORDERS)"
  using assms by (auto simp: stkpush_def stkpush_try_def msisdn_of_def to_string_throws)


lemma stkpush_post_fails:
  assumes "\<not> is_nullish rb" and "truthy (property rb ''phone'')" and "truthy (property rb ''amount'')"
    and "\<not> config_unset e"
    and "msisdn_of w rb = Inr m"
    and "getAccessToken e w = Inr token"
    and "stk_payload e w rb m = Inr payload"
    and "to_string (number_to_string w) token = Inr t"
    and "stk_request e w payload t = Inl err"
  shows "stkpush e w ORDERS rb = (stk_failure err, ORDERS)"
  using assms by (auto simp: stkpush_def stkpush_try_def)

lemma stkpush_post_answers:
  assumes "\<not> is_nullish rb" and "truthy (property rb ''phone'')" and "truthy (property rb ''amount'')"
    and "\<not> config_unset e"
    and "msisdn_of w rb = Inr m"
    and "getAccessToken e w = Inr token"
    and "stk_payload e w rb m = Inr payload"
    and "to_string (number_to_string w) token = Inr t"
    and "stk_request e w payload t = Inr data"
  shows "stkpush e w ORDERS rb =
     (stk_success (js_or data (JObj Map.empty)),
      if truthy (checkout_id_of (js_or data (JObj Map.empty)))
      then orders_set ORDERS (checkout_id_of (js_or data (JObj Map.empty)))
             \<lparr>status = PENDING, detail = js_or data (JObj Map.empty)\<rparr>
      else ORDERS)"
  using assms by (auto simp: stkpush_def stkpush_try_def Let_def)

text \<open>
  Every run of the handler ends with the 400 of a missing field, with a 500 that leaves
  the store as it was, or with the gateway's answer to the STK request.
\<close>

lemma stkpush_cases:
  obtains
    (invalid) "\<not> is_nullish rb" "\<not> truthy (property rb ''phone'') \<or> \<not> truthy (property rb ''amount'')"
     "stkpush e w ORDERS rb =
     (\<lparr>status_code = 400, json_body = JObj [''error'' \<mapsto> JStr ''phone and amount required'']\<rparr>,
      ORDERS)"
  | (config) "\<not> is_nullish rb" "truthy (property rb ''phone'')" "truthy (property rb ''amount'')"
     "config_unset e"
     "stkpush e w ORDERS rb =
     (\<lparr>status_code = 500,
       json_body = JObj [''error'' \<mapsto>
                   JStr ''MPESA_SHORTCODE/MPESA_PASSKEY/MPESA_CALLBACK_URL not set'']\<rparr>, ORDERS)"
  | (failed) err where "stkpush e w ORDERS rb = (stk_failure err, ORDERS)"
  | (answered) m token payload t data where
     "\<not> is_nullish rb" "truthy (property rb ''phone'')" "truthy (property rb ''amount'')"
     "\<not> config_unset e"
     "msisdn_of w rb = Inr m"
     "getAccessToken e w = Inr token"
     "stk_payload e w rb m = Inr payload"
     "to_string (number_to_string w) token = Inr t"
     "stk_request e w payload t = Inr data"
     "stkpush e w ORDERS rb =
     (stk_success (js_or data (JObj Map.empty)),
      if truthy (checkout_id_of (js_or data (JObj Map.empty)))
      then orders_set ORDERS (checkout_id_of (js_or data (JObj Map.empty)))
             \<lparr>status = PENDING, detail = js_or data (JObj Map.empty)\<rparr>
      else ORDERS)"
proof (cases "is_nullish rb")
  case True
  then have "stkpush e w ORDERS rb =
      (stk_failure (TypeError ''Cannot destructure property of req.body''), ORDERS)"
    by (simp add: stkpush_def stkpush_try_def)
  then show ?thesis by (rule failed)
next
  case nn: False
  show ?thesis
  proof (cases "truthy (property rb ''phone'') \<and> truthy (property rb ''amount'')")
    case False
    then show ?thesis using invalid nn stkpush_invalid [of rb e w ORDERS] by blast
  next
    case valid: True
    show ?thesis
    proof (cases "config_unset e")
      case True
      then show ?thesis using config nn valid stkpush_config [of rb e w ORDERS] by blast
    next
      case cfg: False
      show ?thesis
      proof (cases "msisdn_of w rb")
        case (Inl err)
        with nn valid cfg have "stkpush e w ORDERS rb = (stk_failure err, ORDERS)"
          by (auto simp: stkpush_def stkpush_try_def)
        then show ?thesis by (rule failed)
      next
        case p: (Inr m)
        show ?thesis
        proof (cases "getAccessToken e w")
          case (Inl err)
          with nn valid cfg p have "stkpush e w ORDERS rb = (stk_failure err, ORDERS)"
            by (auto simp: stkpush_def stkpush_try_def)
          then show ?thesis by (rule failed)
        next
          case tok: (Inr token)
          show ?thesis
          proof (cases "stk_payload e w rb m")
            case (Inl err)
            with nn valid cfg p tok have "stkpush e w ORDERS rb = (stk_failure err, ORDERS)"
              by (auto simp: stkpush_def stkpush_try_def)
            then show ?thesis by (rule failed)
          next
            case a: (Inr payload)
            show ?thesis
            proof (cases "to_string (number_to_string w) token")
              case (Inl err)
              with nn valid cfg p tok a have "stkpush e w ORDERS rb = (stk_failure err, ORDERS)"
                by (auto simp: stkpush_def stkpush_try_def)
              then show ?thesis by (rule failed)
            next
              case t: (Inr t)
              show ?thesis
              proof (cases "stk_request e w payload t")
                case (Inl err)
                then show ?thesis
                  using failed nn valid cfg p tok a t
                    stkpush_post_fails [of rb e w m token payload t err ORDERS] by blast
              next
                case (Inr data)
                then show ?thesis
                  using answered nn valid cfg p tok a t
                    stkpush_post_answers [of rb e w m token payload t data ORDERS] by blast
              qed
            qed
          qed
        qed
      qed
    qed
  qed
qed




section \<open>Facts about validation and the poller\<close>

text \<open>
  The handler of the Express variant and the page's click handler test the format of the
  phone and the sign of the amount: only a request that passes both tests goes on to the
  gateway, and a request that fails one is refused with 400.
\<close>

lemma express_validation_passes:
  assumes "stkpush_express_validation w rb = Inr None"
  shows "\<exists>p n. to_string (number_to_string w) (property rb ''phone'') = Inr p \<and> local_format p
           \<and> to_number w (property rb ''amount'') = Inr (Some n) \<and> 0 < n"
  using assms
  by (auto simp: stkpush_express_validation_def Let_def
      split: if_splits sum.splits option.splits)

lemma express_validation_rejects:
  assumes "\<not> is_nullish rb"
    and "to_string (number_to_string w) (property rb ''phone'') = Inr p"
    and "to_number w (property rb ''amount'') = Inr a"
    and "\<not> (local_format p \<or> international_format p \<or> plus_international_format p)
         \<or> \<not> (\<exists>n. a = Some n \<and> 0 < n)"
  shows "\<exists>msg. stkpush_express_validation w rb =
           Inr (Some \<lparr>status_code = 400, json_body = JObj [''error'' \<mapsto> JStr msg]\<rparr>)"
  using assms
  by (cases a) (auto simp: stkpush_express_validation_def Let_def)

lemma page_validation_rejects:
  assumes "\<not> (local_format (trim p) \<or> international_format (trim p) \<or> plus_international_format (trim p))
         \<or> \<not> (\<exists>n. string_to_number w a = Some n \<and> 0 < n)"
  shows "mpesa_pay_validation w p a \<noteq> None"
  using assms
  by (cases "string_to_number w a") (auto simp: mpesa_pay_validation_def Let_def)

text \<open>The page after \<open>n\<close> firings of the timer: counting up to the third, stopped after it.\<close>

lemma ticks_before:
  "n < 3 \<Longrightarrow> (interval_tick ^^ n) (pollForPayment cid pg) = pg\<lparr>attempts := n, interval := True\<rparr>"
proof (induction n)
  case 0
  then show ?case by (simp add: pollForPayment_def)
next
  case (Suc n)
  then show ?case by (simp add: interval_tick_def max_attempts_def)
qed

lemma ticks_after:
  "3 \<le> n \<Longrightarrow> (interval_tick ^^ n) (pollForPayment cid pg)
     = pg\<lparr>attempts := 3, interval := False, status_html := PaymentConfirmed, pay_disabled := False\<rparr>"
proof (induction n)
  case 0
  then show ?case by simp
next
  case (Suc n)
  show ?case
  proof (cases "n = 2")
    case True
    have "(interval_tick ^^ Suc n) (pollForPayment cid pg)
            = interval_tick ((interval_tick ^^ n) (pollForPayment cid pg))"
      by simp
    also have "\<dots> = interval_tick (pg\<lparr>attempts := 2, interval := True\<rparr>)"
      using True ticks_before [of 2 cid pg] by simp
    also have "\<dots> = pg\<lparr>attempts := 3, interval := False, status_html := PaymentConfirmed,
                           pay_disabled := False\<rparr>"
      by (simp add: interval_tick_def)
    finally show ?thesis .
  next
    case False
    with Suc.prems have "3 \<le> n" by simp
    from Suc.IH [OF this] show ?thesis by (simp add: interval_tick_def)
  qed
qed

section \<open>The example inputs, evaluated\<close>

text \<open>The envelopes of the example callbacks, and the runs of the handlers on them.\<close>

lemma string_zero_stk:
  "stk_of string_zero_callback =
     JObj [''CheckoutRequestID'' \<mapsto> JStr ''ws_1'', ''ResultCode'' \<mapsto> JStr ''0'',
             ''ResultDesc'' \<mapsto> JStr ''done'']"
  by (simp add: string_zero_callback_def stk_of_def js_or_def js_and_def)



lemma null_item_stk:
  "stk_of null_item_callback =
     JObj [''CheckoutRequestID'' \<mapsto> JStr ''ws_1'', ''ResultCode'' \<mapsto> JNum 0,
             ''ResultDesc'' \<mapsto> JStr ''processed'',
             ''CallbackMetadata'' \<mapsto> JObj [''Item'' \<mapsto> JArr [JNull]]]"
  by (simp add: null_item_callback_def stk_of_def js_or_def js_and_def)

lemma unprintable_name_stk:
  "stk_of unprintable_name_callback =
     JObj [''CheckoutRequestID'' \<mapsto> JStr ''ws_1'', ''ResultCode'' \<mapsto> JNum 0,
             ''ResultDesc'' \<mapsto> JStr ''processed'',
             ''CallbackMetadata'' \<mapsto> JObj [''Item'' \<mapsto>
                JArr [JObj [''Name'' \<mapsto> JObj [''toString'' \<mapsto> JNum 1],
                            ''Value'' \<mapsto> JNum 5]]]]"
  by (simp add: unprintable_name_callback_def stk_of_def js_or_def js_and_def)

lemma cancelled_stk:
  "stk_of cancelled_callback =
     JObj [''CheckoutRequestID'' \<mapsto> JStr ''ws_1'', ''ResultCode'' \<mapsto> JNum 1032,
             ''ResultDesc'' \<mapsto> JStr ''Request cancelled by user'']"
  by (simp add: cancelled_callback_def stk_of_def js_or_def js_and_def)

lemma no_code_stk:
  "stk_of no_code_callback = JObj [''CheckoutRequestID'' \<mapsto> JStr ''ws_1'']"
  by (simp add: no_code_callback_def stk_of_def js_or_def js_and_def)

lemma example_bodies_defined:
  "\<not> is_undefined null_item_callback" "\<not> is_undefined cancelled_callback"
  "\<not> is_undefined unprintable_name_callback" "\<not> is_undefined no_envelope_callback"
  "\<not> is_undefined string_zero_callback" "\<not> is_undefined success_callback"
  by (simp_all add: null_item_callback_def cancelled_callback_def unprintable_name_callback_def
      no_envelope_callback_def string_zero_callback_def success_callback_def)

lemma null_item_run:
  "callback fmt T null_item_callback = (\<lparr>status_code = 500, json_body = callback_error\<rparr>, T)"
  by (simp add: callback_def callback_try_unfold example_bodies_defined null_item_stk js_or_def)

lemma unprintable_name_run:
  "callback fmt T unprintable_name_callback = (\<lparr>status_code = 500, json_body = callback_error\<rparr>, T)"
  by (simp add: callback_def callback_try_unfold example_bodies_defined unprintable_name_stk js_or_def)

lemma cancelled_run:
  "callback fmt T cancelled_callback =
     (\<lparr>status_code = 200, json_body = callback_ack\<rparr>,
      orders_set T (JStr ''ws_1'')
        \<lparr>status = FAILED,
         detail = JObj [''ResultCode'' \<mapsto> JNum 1032,
                        ''ResultDesc'' \<mapsto> JStr ''Request cancelled by user'']\<rparr>)"
  by (simp add: callback_def callback_try_unfold example_bodies_defined cancelled_stk js_or_def)

lemma demo_request_valid:
  "\<not> is_nullish demo_request" "truthy (property demo_request ''phone'')"
  "truthy (property demo_request ''amount'')"
  by (simp_all add: demo_request_def)

lemma demo_request_msisdn: "msisdn_of w demo_request = Inr ''254712345678''"
  by (simp add: msisdn_of_def demo_request_def normalize_msisdn_def is_space_def)

lemma demo_request_payload:
  "\<exists>payload. stk_payload e w demo_request m = Inr payload
     \<and> property payload ''Amount'' = JNum 150 \<and> property payload ''PhoneNumber'' = JStr m"
  by (simp add: stk_payload_def demo_request_def Let_def)

lemma demo_token: "getAccessToken demo_env (demo_world data) = Inr (JStr ''token'')"
  by (simp add: getAccessToken_def demo_env_def demo_world_def)

lemma demo_token_string: "to_string fmt (JStr ''token'') = Inr ''token''"
  by simp

lemma demo_config: "\<not> config_unset demo_env"
  by (simp add: demo_env_def)

lemma demo_post: "stk_request demo_env (demo_world data) payload t = Inr data"
  by (simp add: demo_world_def)

lemma demo_stkpush:
  "stkpush demo_env (demo_world data) ORDERS demo_request =
     (stk_success (js_or data (JObj Map.empty)),
      if truthy (checkout_id_of (js_or data (JObj Map.empty)))
      then orders_set ORDERS (checkout_id_of (js_or data (JObj Map.empty)))
             \<lparr>status = PENDING, detail = js_or data (JObj Map.empty)\<rparr>
      else ORDERS)"
proof -
  obtain payload where
    "stk_payload demo_env (demo_world data) demo_request ''254712345678'' = Inr payload"
    using demo_request_payload by blast
  from stkpush_post_answers [OF demo_request_valid demo_config demo_request_msisdn
      demo_token this demo_token_string demo_post] show ?thesis .
qed

lemma accepted_id: "checkout_id_of accepted_data = JStr ''ws_1''"
  by (simp add: accepted_data_def checkout_id_of_def js_or_def)

lemma accepted_or: "js_or accepted_data d = accepted_data"
  by (simp add: accepted_data_def js_or_def)




lemma negative_request_valid:
  "\<not> is_nullish negative_request" "truthy (property negative_request ''phone'')"
  "truthy (property negative_request ''amount'')"
  by (simp_all add: negative_request_def)

lemma negative_request_msisdn: "msisdn_of w negative_request = Inr ''254712345678''"
  by (simp add: msisdn_of_def negative_request_def normalize_msisdn_def is_space_def)

lemma negative_request_payload:
  "\<exists>payload. stk_payload e w negative_request m = Inr payload
     \<and> property payload ''Amount'' = JNum (- 5) \<and> property payload ''PhoneNumber'' = JStr m"
  by (simp add: stk_payload_def negative_request_def Let_def)

lemma foreign_request_valid:
  "\<not> is_nullish foreign_request" "truthy (property foreign_request ''phone'')"
  "truthy (property foreign_request ''amount'')"
  by (simp_all add: foreign_request_def)

lemma foreign_request_msisdn: "msisdn_of w foreign_request = Inr ''hello''"
  by (simp add: msisdn_of_def foreign_request_def normalize_msisdn_def is_space_def)

lemma foreign_request_payload:
  "\<exists>payload. stk_payload e w foreign_request m = Inr payload
     \<and> property payload ''Amount'' = JNum 150 \<and> property payload ''PhoneNumber'' = JStr m"
  by (simp add: stk_payload_def foreign_request_def Let_def)

lemma unprintable_phone_run:
  "stkpush demo_env w T unprintable_phone_request = (stk_failure conversion_error, T)"
proof -
  have "\<not> is_nullish unprintable_phone_request"
    "truthy (property unprintable_phone_request ''phone'')"
    "truthy (property unprintable_phone_request ''amount'')"
    "unprintable (property unprintable_phone_request ''phone'')"
    by (simp_all add: unprintable_phone_request_def)
  from stkpush_phone_throws [OF this(1-3) demo_config this(4)] show ?thesis .
qed

lemma express_rejects_examples:
  "stkpush_express_validation w negative_request =
     Inr (Some \<lparr>status_code = 400, json_body = JObj [''error'' \<mapsto> JStr ''Invalid amount'']\<rparr>)"
  "stkpush_express_validation w foreign_request =
     Inr (Some \<lparr>status_code = 400, json_body = JObj [''error'' \<mapsto> JStr ''Invalid phone number format'']\<rparr>)"
  by (simp_all add: stkpush_express_validation_def negative_request_def foreign_request_def
      local_format_def is_digit_def)

text \<open>
  The Express variant answers the same three bodies: 500 for the \<^verbatim>\<open>null\<close> item, and an
  acknowledgement whose description is \<^verbatim>\<open>'Success'\<close> for a callback it has processed.
\<close>

lemma callback_express_examples:
  "callback_express null_item_callback =
     \<lparr>status_code = 500,
      json_body = JObj [''ResultCode'' \<mapsto> JNum 1, ''ResultDesc'' \<mapsto> JStr ''Server error'']\<rparr>"
  "callback_express cancelled_callback =
     \<lparr>status_code = 200,
      json_body = JObj [''ResultCode'' \<mapsto> JNum 0, ''ResultDesc'' \<mapsto> JStr ''Success'']\<rparr>"
  "callback_express no_envelope_callback =
     \<lparr>status_code = 200,
      json_body = JObj [''ResultCode'' \<mapsto> JNum 0, ''ResultDesc'' \<mapsto> JStr ''Received'']\<rparr>"
  by (simp_all add: callback_express_def optional_property_def express_items_throw_def
      null_item_callback_def cancelled_callback_def no_envelope_callback_def)

section \<open>Transitions of a stored intent\<close>

text \<open>
  Claim C1 says that a terminal intent never changes again. Both handlers call
  \<^verbatim>\<open>ORDERS.set\<close> without reading the store: on the paid intent \<^verbatim>\<open>ws_1\<close>, a later
  cancellation stores \<open>FAILED\<close>, and a re-initiation that returns \<^verbatim>\<open>ws_1\<close> stores
  \<open>PENDING\<close>.
\<close>

theorem terminal_status_overwritten:
  "map_option status (orders_get paid_store (JStr ''ws_1'')) = Some SUCCESS
   \<and> map_option status
        (orders_get (snd (callback show_int paid_store cancelled_callback)) (JStr ''ws_1''))
       = Some FAILED
   \<and> map_option status
        (orders_get (snd (stkpush demo_env (demo_world accepted_data) paid_store demo_request))
           (JStr ''ws_1''))
       = Some PENDING"
  by (simp add: demo_stkpush accepted_id accepted_or cancelled_run) (simp add: paid_store_def)

text \<open>
  Claim C1, as the handlers have it: the last write wins. For a correlation id that is a
  primitive value (a string, a number; an array or an object is a new key of the map at
  every delivery): an acknowledged callback with envelope and correlation id leaves,
  under that id, the status of this callback, whatever the store held before, and
  delivering the same callback again changes nothing more; an initiation that returns
  the id leaves it \<open>PENDING\<close> with the gateway's data as detail, whatever the store held
  before. Neither handler changes the intent of any other id.
\<close>

theorem transitions_overwrite:
  "(truthy (stk_of b) \<and> truthy (checkout_id_in b)
      \<and> \<not> is_reference (checkout_id_in b) \<and> status_code (fst (callback fmt ORDERS b)) = 200
    \<longrightarrow> map_option status (orders_get (snd (callback fmt ORDERS b)) (checkout_id_in b))
          = Some (if result_code_in b = JNum 0 then SUCCESS else FAILED)
        \<and> callback fmt (snd (callback fmt ORDERS b)) b = callback fmt ORDERS b)
   \<and> (\<forall>k. \<not> same_value_zero (checkout_id_in b) k \<longrightarrow>
          orders_get (snd (callback fmt ORDERS b)) k = orders_get ORDERS k)
   \<and> (status_code (fst (stkpush e w ORDERS rb)) = 200
        \<and> truthy (checkout_id_of (property (json_body (fst (stkpush e w ORDERS rb))) ''data''))
        \<and> \<not> is_reference (checkout_id_of (property (json_body (fst (stkpush e w ORDERS rb))) ''data''))
      \<longrightarrow> orders_get (snd (stkpush e w ORDERS rb))
            (checkout_id_of (property (json_body (fst (stkpush e w ORDERS rb))) ''data''))
          = Some \<lparr>status = PENDING,
                  detail = property (json_body (fst (stkpush e w ORDERS rb))) ''data''\<rparr>)
   \<and> (\<forall>k. \<not> same_value_zero
              (checkout_id_of (property (json_body (fst (stkpush e w ORDERS rb))) ''data'')) k
        \<longrightarrow> orders_get (snd (stkpush e w ORDERS rb)) k = orders_get ORDERS k)"
proof (intro conjI impI allI)
  assume h: "truthy (stk_of b) \<and> truthy (checkout_id_in b)
      \<and> \<not> is_reference (checkout_id_in b) \<and> status_code (fst (callback fmt ORDERS b)) = 200"
  then have def: "\<not> is_undefined b" using stk_of_undefined by blast
  have run: "\<exists>v. status v = (if result_code_in b = JNum 0 then SUCCESS else FAILED)
              \<and> (\<forall>T. callback fmt T b =
                     (\<lparr>status_code = 200, json_body = callback_ack\<rparr>,
                      orders_set T (checkout_id_in b) v))"
  proof (cases "result_code_in b = JNum 0")
    case False
    show ?thesis
      apply (rule exI [of _ "\<lparr>status = FAILED,
               detail = JObj [''ResultCode'' \<mapsto> result_code_in b, ''ResultDesc'' \<mapsto> result_desc_in b]\<rparr>"])
      using h def False by (simp add: callback_def callback_try_unfold)
  next
    case True
    have "\<not> (\<exists>e. callback_try fmt ORDERS b = Inl e)"
      using h by (auto simp: callback_def)
    with h True have "\<not> list_ex item_throws (items_in b)"
      unfolding callback_try_throws by blast
    then obtain d where d: "collect_items fmt (items_in b) Map.empty = Inr d"
      using collect_items_result [of "items_in b" fmt Map.empty] by blast
    show ?thesis
      apply (rule exI [of _ "\<lparr>status = SUCCESS,
               detail = JObj ([''ResultDesc'' \<mapsto> result_desc_in b] ++ d)\<rparr>"])
      using h def True d by (simp add: callback_def callback_try_unfold)
  qed
  then obtain v where v: "status v = (if result_code_in b = JNum 0 then SUCCESS else FAILED)"
    and S: "\<And>T. callback fmt T b =
                     (\<lparr>status_code = 200, json_body = callback_ack\<rparr>,
                      orders_set T (checkout_id_in b) v)"
    by blast
  show "map_option status (orders_get (snd (callback fmt ORDERS b)) (checkout_id_in b))
          = Some (if result_code_in b = JNum 0 then SUCCESS else FAILED)"
    using v h by (simp add: S orders_get_set_same)
  show "callback fmt (snd (callback fmt ORDERS b)) b = callback fmt ORDERS b"
    using h by (simp add: S orders_set_twice)
next
  fix k assume "\<not> same_value_zero (checkout_id_in b) k"
  then show "orders_get (snd (callback fmt ORDERS b)) k = orders_get ORDERS k"
    using callback_store [of fmt ORDERS b] by (auto simp: orders_get_set_other)
next
  assume h: "status_code (fst (stkpush e w ORDERS rb)) = 200
        \<and> truthy (checkout_id_of (property (json_body (fst (stkpush e w ORDERS rb))) ''data''))
        \<and> \<not> is_reference (checkout_id_of (property (json_body (fst (stkpush e w ORDERS rb))) ''data''))"
  show "orders_get (snd (stkpush e w ORDERS rb))
            (checkout_id_of (property (json_body (fst (stkpush e w ORDERS rb))) ''data''))
          = Some \<lparr>status = PENDING,
                  detail = property (json_body (fst (stkpush e w ORDERS rb))) ''data''\<rparr>"
    using h by (cases rule: stkpush_cases [of rb e w ORDERS]) (auto simp: orders_get_set_same)
next
  fix k assume "\<not> same_value_zero
              (checkout_id_of (property (json_body (fst (stkpush e w ORDERS rb))) ''data'')) k"
  then show "orders_get (snd (stkpush e w ORDERS rb)) k = orders_get ORDERS k"
    by (cases rule: stkpush_cases [of rb e w ORDERS]) (auto simp: orders_get_set_other)
qed

text \<open>The cancellation and the re-initiation on the paid intent \<^verbatim>\<open>ws_1\<close>.\<close>

theorem transitions_overwrite_witness:
  "map_option status
     (orders_get (snd (callback show_int paid_store cancelled_callback)) (JStr ''ws_1''))
     = Some FAILED
   \<and> callback show_int (snd (callback show_int paid_store cancelled_callback)) cancelled_callback
     = callback show_int paid_store cancelled_callback
   \<and> orders_get (snd (stkpush demo_env (demo_world accepted_data) paid_store demo_request))
        (JStr ''ws_1'')
     = Some \<lparr>status = PENDING, detail = accepted_data\<rparr>"
  using transitions_overwrite [where b = cancelled_callback and ORDERS = paid_store
      and fmt = show_int and e = demo_env and w = "demo_world accepted_data" and rb = demo_request]
  by (simp add: cancelled_run cancelled_stk demo_stkpush accepted_id accepted_or)

section \<open>The acknowledgement of a callback\<close>

text \<open>
  Claim C2 says that the callback endpoint answers 200 with the acknowledgement whatever
  the payload. A success callback whose metadata list holds \<^verbatim>\<open>null\<close> makes the loop
  throw, and the \<^verbatim>\<open>catch\<close> clause answers 500.
\<close>

theorem callback_null_item_500:
  "status_code (fst (callback show_int pending_store null_item_callback)) = 500
   \<and> json_body (fst (callback show_int pending_store null_item_callback)) = callback_error
   \<and> snd (callback show_int pending_store null_item_callback) = pending_store"
  by (simp add: null_item_run)

text \<open>
  Claim C2, as the two handlers have it. The callback endpoint of \<^verbatim>\<open>server.js\<close> answers
  200 with the acknowledgement \<^verbatim>\<open>{ ResultCode: 0, ResultDesc: 'Received' }\<close> whenever
  processing the payload ends without an exception; an exception is caught and answered
  500 with \<^verbatim>\<open>{ error: 'callback processing error' }\<close>, the store left unchanged.
  Processing ends without an exception for every body that is a JSON value and has no
  envelope or no correlation id, or reports a result code other than 0, or lists only
  items that are not \<^verbatim>\<open>null\<close> and whose names convert to a property key. The endpoint
  of the Express variant answers 200 with that acknowledgement when the envelope is
  missing and with \<^verbatim>\<open>{ ResultCode: 0, ResultDesc: 'Success' }\<close> when it has processed the
  callback; a body that is \<^verbatim>\<open>undefined\<close> or a \<^verbatim>\<open>null\<close> item is an exception there too,
  answered 500 with \<^verbatim>\<open>{ ResultCode: 1, ResultDesc: 'Server error' }\<close>.
\<close>

theorem callback_response:
  "fst (callback fmt ORDERS b) =
     (if is_undefined b \<or>
         (truthy (stk_of b) \<and> truthy (checkout_id_in b) \<and> result_code_in b = JNum 0
           \<and> list_ex item_throws (items_in b))
      then \<lparr>status_code = 500, json_body = callback_error\<rparr>
      else \<lparr>status_code = 200, json_body = callback_ack\<rparr>)
   \<and> (status_code (fst (callback fmt ORDERS b)) = 500 \<longrightarrow> snd (callback fmt ORDERS b) = ORDERS)
   \<and> callback_express b =
     (if is_undefined b \<or>
         express_items_throw (optional_property (optional_property b ''Body'') ''stkCallback'')
      then \<lparr>status_code = 500,
            json_body = JObj [''ResultCode'' \<mapsto> JNum 1, ''ResultDesc'' \<mapsto> JStr ''Server error'']\<rparr>
      else if truthy (optional_property (optional_property b ''Body'') ''stkCallback'')
      then \<lparr>status_code = 200,
            json_body = JObj [''ResultCode'' \<mapsto> JNum 0, ''ResultDesc'' \<mapsto> JStr ''Success'']\<rparr>
      else \<lparr>status_code = 200, json_body = callback_ack\<rparr>)"
proof (intro conjI)
  show "fst (callback fmt ORDERS b) =
     (if is_undefined b \<or>
         (truthy (stk_of b) \<and> truthy (checkout_id_in b) \<and> result_code_in b = JNum 0
           \<and> list_ex item_throws (items_in b))
      then \<lparr>status_code = 500, json_body = callback_error\<rparr>
      else \<lparr>status_code = 200, json_body = callback_ack\<rparr>)"
    using callback_try_throws [of fmt ORDERS b]
    by (cases "callback_try fmt ORDERS b") (auto simp: callback_def)
  show "status_code (fst (callback fmt ORDERS b)) = 500 \<longrightarrow> snd (callback fmt ORDERS b) = ORDERS"
    by (cases "callback_try fmt ORDERS b") (auto simp: callback_def)
  have "\<not> truthy v \<Longrightarrow> \<not> express_items_throw v" for v
    by (cases v) (auto simp: express_items_throw_def)
  then show "callback_express b =
     (if is_undefined b \<or>
         express_items_throw (optional_property (optional_property b ''Body'') ''stkCallback'')
      then \<lparr>status_code = 500,
            json_body = JObj [''ResultCode'' \<mapsto> JNum 1, ''ResultDesc'' \<mapsto> JStr ''Server error'']\<rparr>
      else if truthy (optional_property (optional_property b ''Body'') ''stkCallback'')
      then \<lparr>status_code = 200,
            json_body = JObj [''ResultCode'' \<mapsto> JNum 0, ''ResultDesc'' \<mapsto> JStr ''Success'']\<rparr>
      else \<lparr>status_code = 200, json_body = callback_ack\<rparr>)"
    by (auto simp: callback_express_def callback_ack_def Let_def)
qed

text \<open>
  A cancellation is acknowledged; the \<^verbatim>\<open>null\<close> item and the name with a \<^verbatim>\<open>toString\<close>
  of its own are answered 500.
\<close>

theorem callback_response_witness:
  "fst (callback show_int paid_store cancelled_callback)
     = \<lparr>status_code = 200, json_body = callback_ack\<rparr>
   \<and> fst (callback show_int paid_store null_item_callback)
     = \<lparr>status_code = 500, json_body = callback_error\<rparr>
   \<and> snd (callback show_int paid_store null_item_callback) = paid_store
   \<and> fst (callback show_int paid_store unprintable_name_callback)
     = \<lparr>status_code = 500, json_body = callback_error\<rparr>
   \<and> callback_express cancelled_callback =
       \<lparr>status_code = 200,
        json_body = JObj [''ResultCode'' \<mapsto> JNum 0, ''ResultDesc'' \<mapsto> JStr ''Success'']\<rparr>"
  using callback_response [of show_int paid_store cancelled_callback]
    callback_response [of show_int paid_store null_item_callback]
    callback_response [of show_int paid_store unprintable_name_callback]
  by (simp add: example_bodies_defined cancelled_stk null_item_stk unprintable_name_stk js_or_def
      callback_express_examples)

section \<open>The outcome a callback stores\<close>




section \<open>The status query\<close>

text \<open>
  Claim C4. A status query without a correlation id (the parameter is missing or empty)
  is answered 400 with an error message; a query for an id that the store does not hold
  is answered 200 with the status \<^verbatim>\<open>PENDING\<close>, never with an error.
\<close>

theorem status_unknown_is_pending:
  "(\<not> truthy (property q ''checkoutId'') \<longrightarrow>
      status_handler ORDERS q =
        \<lparr>status_code = 400, json_body = JObj [''error'' \<mapsto> JStr ''checkoutId required'']\<rparr>)
   \<and> (truthy (property q ''checkoutId'') \<and> orders_get ORDERS (property q ''checkoutId'') = None \<longrightarrow>
      status_handler ORDERS q =
        \<lparr>status_code = 200, json_body = JObj [''status'' \<mapsto> JStr ''PENDING'']\<rparr>)"
  by (simp add: status_handler_def)

text \<open>A query without parameter and a query for the unknown \<^verbatim>\<open>ws_2\<close>.\<close>

theorem status_unknown_is_pending_witness:
  "status_handler paid_store (JObj Map.empty) =
     \<lparr>status_code = 400, json_body = JObj [''error'' \<mapsto> JStr ''checkoutId required'']\<rparr>
   \<and> status_handler paid_store (JObj [''checkoutId'' \<mapsto> JStr ''ws_2'']) =
     \<lparr>status_code = 200, json_body = JObj [''status'' \<mapsto> JStr ''PENDING'']\<rparr>"
  using status_unknown_is_pending [of "JObj Map.empty" paid_store]
    status_unknown_is_pending [of "JObj [''checkoutId'' \<mapsto> JStr ''ws_2'']" paid_store]
  by (simp add: paid_store_def)

section \<open>Validation of an initiation request\<close>

text \<open>
  Claim C5 says that the initiate endpoint answers 400 unless the phone has a Kenyan
  format and the amount is positive. The handler of \<^verbatim>\<open>server.js\<close> only tests that both
  are present: a request for the amount -5 and a request for the phone \<^verbatim>\<open>hello\<close> pass,
  the gateway is called with them, and an intent is stored.
\<close>

theorem stkpush_accepts_unvalidated:
  "stkpush demo_env (demo_world accepted_data) [] negative_request =
     (stk_success accepted_data, [(JStr ''ws_1'', \<lparr>status = PENDING, detail = accepted_data\<rparr>)])
   \<and> msisdn_of (demo_world accepted_data) negative_request = Inr ''254712345678''
   \<and> \<not> isl (stk_payload demo_env (demo_world accepted_data) negative_request ''254712345678'')
   \<and> property (projr (stk_payload demo_env (demo_world accepted_data) negative_request
                         ''254712345678'')) ''Amount'' = JNum (- 5)
   \<and> stkpush demo_env (demo_world accepted_data) [] foreign_request =
     (stk_success accepted_data, [(JStr ''ws_1'', \<lparr>status = PENDING, detail = accepted_data\<rparr>)])
   \<and> msisdn_of (demo_world accepted_data) foreign_request = Inr ''hello''
   \<and> \<not> isl (stk_payload demo_env (demo_world accepted_data) foreign_request ''hello'')
   \<and> property (projr (stk_payload demo_env (demo_world accepted_data) foreign_request ''hello''))
        ''PhoneNumber'' = JStr ''hello''"
proof -
  obtain pn where pn: "stk_payload demo_env (demo_world accepted_data) negative_request
        ''254712345678'' = Inr pn" "property pn ''Amount'' = JNum (- 5)"
    using negative_request_payload by blast
  obtain pf where pf: "stk_payload demo_env (demo_world accepted_data) foreign_request
        ''hello'' = Inr pf" "property pf ''PhoneNumber'' = JStr ''hello''"
    using foreign_request_payload by blast
  have a: "stkpush demo_env (demo_world accepted_data) [] negative_request =
     (stk_success accepted_data, [(JStr ''ws_1'', \<lparr>status = PENDING, detail = accepted_data\<rparr>)])"
    using stkpush_post_answers [OF negative_request_valid demo_config negative_request_msisdn
        demo_token pn(1) demo_token_string demo_post, of "[]"]
    by (simp add: accepted_or accepted_id)
  have b: "stkpush demo_env (demo_world accepted_data) [] foreign_request =
     (stk_success accepted_data, [(JStr ''ws_1'', \<lparr>status = PENDING, detail = accepted_data\<rparr>)])"
    using stkpush_post_answers [OF foreign_request_valid demo_config foreign_request_msisdn
        demo_token pf(1) demo_token_string demo_post, of "[]"]
    by (simp add: accepted_or accepted_id)
  from a b pn pf show ?thesis
    by (simp add: negative_request_msisdn foreign_request_msisdn)
qed

section \<open>The outcomes of an initiation\<close>




section \<open>The detail of a pending intent\<close>




section \<open>What the poller reports\<close>

text \<open>
  Claim C8 says that the poller reports success only after a status query has returned
  \<^verbatim>\<open>SUCCESS\<close>, and reports a timeout after a bounded number of attempts. The poller of
  the page is a demonstration: its timer asks the server nothing and shows the
  confirmation at the third firing, also for the payment \<^verbatim>\<open>ws_1\<close> whose status on the
  server is \<^verbatim>\<open>FAILED\<close>; and eight firings after the start it does not show the message
  of a payment that is not confirmed.
\<close>

theorem poller_confirms_unasked:
  "status_html ((interval_tick ^^ 3) (pollForPayment (JStr ''ws_1'') page_prompt_sent))
     = PaymentConfirmed
   \<and> json_body (status_handler failed_store (JObj [''checkoutId'' \<mapsto> JStr ''ws_1'']))
       = JObj [''status'' \<mapsto> JStr ''FAILED'',
               ''detail'' \<mapsto> JObj [''ResultCode'' \<mapsto> JNum 1032,
                                       ''ResultDesc'' \<mapsto> JStr ''Request cancelled by user'']]
   \<and> status_html ((interval_tick ^^ 8) (pollForPayment (JStr ''ws_1'') page_prompt_sent))
       = PaymentConfirmed"
proof (intro conjI)
  show "status_html ((interval_tick ^^ 3) (pollForPayment (JStr ''ws_1'') page_prompt_sent))
     = PaymentConfirmed"
    using ticks_after [of 3 "JStr ''ws_1''" page_prompt_sent] by simp
  show "status_html ((interval_tick ^^ 8) (pollForPayment (JStr ''ws_1'') page_prompt_sent))
     = PaymentConfirmed"
    using ticks_after [of 8 "JStr ''ws_1''" page_prompt_sent] by simp
  show "json_body (status_handler failed_store (JObj [''checkoutId'' \<mapsto> JStr ''ws_1'']))
       = JObj [''status'' \<mapsto> JStr ''FAILED'',
               ''detail'' \<mapsto> JObj [''ResultCode'' \<mapsto> JNum 1032,
                                       ''ResultDesc'' \<mapsto> JStr ''Request cancelled by user'']]"
    by (simp add: status_handler_def failed_store_def js_or_def)
qed

text \<open>
  Claim C8, as the page has it. The poller is a stub that issues no status query: the
  page after \<open>n\<close> firings of the timer depends on \<open>n\<close> alone, not on the correlation id
  and not on the server. Before the third firing the page is as it was when polling
  started; from the third firing on it shows the confirmation, the timer is cleared and
  the pay button is enabled again. The message of a payment that is not confirmed,
  which is another message than the confirmation, is never shown: the branch for eight
  attempts is not reached.
\<close>

theorem poller_is_stub:
  "(interval_tick ^^ n) (pollForPayment cid pg) =
     (if n < 3 then pg\<lparr>attempts := n, interval := True\<rparr>
      else pg\<lparr>attempts := 3, interval := False, status_html := PaymentConfirmed,
              pay_disabled := False\<rparr>)
   \<and> status_html ((interval_tick ^^ n) (pollForPayment cid page_prompt_sent)) \<noteq> NotConfirmedYet
   \<and> PaymentConfirmed \<noteq> NotConfirmedYet"
proof (cases "n < 3")
  case True
  then show ?thesis using ticks_before [of n cid]
    by (simp add: page_prompt_sent_def)
next
  case False
  then show ?thesis using ticks_after [of n cid] by simp
qed

section \<open>A callback without envelope\<close>




section \<open>The result code is compared strictly\<close>

text \<open>
  Claim C10. The handler decides with \<^verbatim>\<open>resultCode === 0\<close>. For every callback with an
  envelope and a correlation id whose \<^verbatim>\<open>ResultCode\<close> is anything but the number 0 (another
  number, the string \<^verbatim>\<open>"0"\<close>, a boolean, \<^verbatim>\<open>null\<close>, an array, or no \<^verbatim>\<open>ResultCode\<close> at
  all) the handler acknowledges and stores the intent under the id as \<open>FAILED\<close>, with
  the code and the description as detail.
\<close>

theorem callback_strict_zero:
  assumes "truthy (stk_of b)" and "truthy (checkout_id_in b)"
    and "result_code_in b \<noteq> JNum 0"
  shows "callback fmt ORDERS b =
           (\<lparr>status_code = 200, json_body = callback_ack\<rparr>,
            orders_set ORDERS (checkout_id_in b)
              \<lparr>status = FAILED,
               detail = JObj [''ResultCode'' \<mapsto> result_code_in b, ''ResultDesc'' \<mapsto> result_desc_in b]\<rparr>)
         \<and> (checkout_id_in b,
              \<lparr>status = FAILED,
               detail = JObj [''ResultCode'' \<mapsto> result_code_in b, ''ResultDesc'' \<mapsto> result_desc_in b]\<rparr>)
             \<in> set (snd (callback fmt ORDERS b))
         \<and> (\<not> is_reference (checkout_id_in b) \<longrightarrow>
              map_option status (orders_get (snd (callback fmt ORDERS b)) (checkout_id_in b))
                = Some FAILED)"
proof -
  from assms have "\<not> is_undefined b" using stk_of_undefined by blast
  with assms show ?thesis
    by (simp add: callback_def callback_try_unfold orders_get_set_same orders_set_member)
qed

text \<open>
  The callbacks with the code \<^verbatim>\<open>"0"\<close>, with the code 1032 and without code, each on an
  empty store.
\<close>

theorem callback_strict_zero_witness:
  "callback show_int [] string_zero_callback =
     (\<lparr>status_code = 200, json_body = callback_ack\<rparr>,
      [(JStr ''ws_1'', \<lparr>status = FAILED,
          detail = JObj [''ResultCode'' \<mapsto> JStr ''0'', ''ResultDesc'' \<mapsto> JStr ''done'']\<rparr>)])
   \<and> callback show_int [] cancelled_callback =
     (\<lparr>status_code = 200, json_body = callback_ack\<rparr>,
      [(JStr ''ws_1'', \<lparr>status = FAILED,
          detail = JObj [''ResultCode'' \<mapsto> JNum 1032,
                         ''ResultDesc'' \<mapsto> JStr ''Request cancelled by user'']\<rparr>)])
   \<and> callback show_int [] no_code_callback =
     (\<lparr>status_code = 200, json_body = callback_ack\<rparr>,
      [(JStr ''ws_1'', \<lparr>status = FAILED,
          detail = JObj [''ResultCode'' \<mapsto> JUndefined, ''ResultDesc'' \<mapsto> JStr '''']\<rparr>)])"
proof -
  have a: "truthy (stk_of string_zero_callback)" "truthy (checkout_id_in string_zero_callback)"
    "result_code_in string_zero_callback \<noteq> JNum 0"
    by (simp_all add: string_zero_stk)
  have b: "truthy (stk_of cancelled_callback)" "truthy (checkout_id_in cancelled_callback)"
    "result_code_in cancelled_callback \<noteq> JNum 0"
    by (simp_all add: cancelled_stk)
  have c: "truthy (stk_of no_code_callback)" "truthy (checkout_id_in no_code_callback)"
    "result_code_in no_code_callback \<noteq> JNum 0"
    by (simp_all add: no_code_stk)
  show ?thesis
    using callback_strict_zero [OF a, of show_int "[]"] callback_strict_zero [OF b, of show_int "[]"]
      callback_strict_zero [OF c, of show_int "[]"]
    by (simp add: string_zero_stk cancelled_stk no_code_stk js_or_def)
qed

end
